theory Spec2Isabelle
  imports Main "HOL-Library.AList"
begin

section \<open>JavaScript values\<close>

text \<open>
  The chat service is JavaScript: the payload of a socket event, the fields a handler
  stores on the socket and the objects it emits are dynamically typed. A value is
  \<open>undefined\<close>, \<open>null\<close>, a boolean, a number, a string, an array or an object
  with named properties (kept in insertion order). Numbers are the integers (timestamps,
  round numbers); strings are byte strings, a character outside ASCII being its UTF-8
  bytes.
\<close>

datatype jsval =
    JUndefined
  | JNull
  | JBool bool
  | JNum int
  | JStr string
  | JArr "jsval list"
  | JObj "(string \<times> jsval) list"

datatype js_error =
    TypeError string
  | SyntaxError string
  | Error string

text \<open>Truthiness, as \<open>!v\<close> and \<open>if (v)\<close> read it.\<close>

fun truthy :: "jsval \<Rightarrow> bool" where
  "truthy JUndefined = False"
| "truthy JNull = False"
| "truthy (JBool b) = b"
| "truthy (JNum n) = (n \<noteq> 0)"
| "truthy (JStr s) = (s \<noteq> [])"
| "truthy (JArr vs) = True"
| "truthy (JObj kvs) = True"

text \<open>
  Strict equality \<open>===\<close>: primitives are compared by type and value, objects and
  arrays by identity. The objects compared in this program always come from different
  places (a parsed reply, a parsed room record, an event payload, a fresh literal), so
  two of them are never identical.
\<close>

fun strict_eq :: "jsval \<Rightarrow> jsval \<Rightarrow> bool" where
  "strict_eq (JObj a) v = False"
| "strict_eq v (JObj b) = False"
| "strict_eq (JArr a) v = False"
| "strict_eq v (JArr b) = False"
| "strict_eq a b = (a = b)"

text \<open>
  Reading a property \<open>v.k\<close>: a TypeError on \<open>undefined\<close> and \<open>null\<close>, the stored
  value on an object that has the property, \<open>undefined\<close> otherwise.
\<close>

fun get_prop :: "jsval \<Rightarrow> string \<Rightarrow> js_error + jsval" where
  "get_prop JUndefined k = Inl (TypeError (''Cannot read properties of undefined (reading '' @ k @ '')''))"
| "get_prop JNull k = Inl (TypeError (''Cannot read properties of null (reading '' @ k @ '')''))"
| "get_prop (JObj kvs) k = Inr (case map_of kvs k of None \<Rightarrow> JUndefined | Some v \<Rightarrow> v)"
| "get_prop v k = Inr JUndefined"

subsection \<open>Numbers and values as text\<close>

definition digit_char :: "nat \<Rightarrow> char" where
  "digit_char d = ''0123456789'' ! d"

function string_of_nat :: "nat \<Rightarrow> string" where
  "string_of_nat n =
     (if n < 10 then [digit_char n] else string_of_nat (n div 10) @ [digit_char (n mod 10)])"
  by pat_completeness auto
termination
  by (relation "measure (\<lambda>n. n)") auto

declare string_of_nat.simps [simp del]

definition string_of_int :: "int \<Rightarrow> string" where
  "string_of_int i = (if i < 0 then CHR ''-'' # string_of_nat (nat (- i)) else string_of_nat (nat i))"

fun join_comma :: "string list \<Rightarrow> string" where
  "join_comma [] = []"
| "join_comma [s] = s"
| "join_comma (s # t # ss) = s @ '','' @ join_comma (t # ss)"

text \<open>
  What a template literal \<open>`${v}`\<close> inserts for a value. An array is the texts of its
  elements joined by commas, \<open>undefined\<close> and \<open>null\<close> elements being empty. A
  number is written with all its digits, which is what JavaScript does for an integer
  below \<open>10\<^sup>2\<^sup>1\<close>; the exponent form it uses from there on is not modelled.
\<close>

fun to_string_js :: "jsval \<Rightarrow> string" where
  "to_string_js JUndefined = ''undefined''"
| "to_string_js JNull = ''null''"
| "to_string_js (JBool b) = (if b then ''true'' else ''false'')"
| "to_string_js (JNum n) = string_of_int n"
| "to_string_js (JStr s) = s"
| "to_string_js (JArr vs) =
     join_comma (map (\<lambda>v. if v = JUndefined \<or> v = JNull then [] else to_string_js v) vs)"
| "to_string_js (JObj kvs) = ''[object Object]''"

subsection \<open>String methods\<close>

text \<open>
  \<open>String.prototype.trim\<close> and \<open>toLowerCase\<close> on the ASCII range: the white space
  removed is tab, line feed, vertical tab, form feed, carriage return and space, and
  the letters folded are \<open>A\<close> to \<open>Z\<close>. Bytes above 127 are left as they are, so
  the Unicode white space (U+00A0 and the like) and the letters outside ASCII, which
  JavaScript also trims and folds, are not covered.
\<close>

definition is_space :: "char \<Rightarrow> bool" where
  "is_space c = (c \<in> set [CHR 0x09, CHR 0x0A, CHR 0x0B, CHR 0x0C, CHR 0x0D, CHR 0x20])"

definition trim :: "string \<Rightarrow> string" where
  "trim s = rev (dropWhile is_space (rev (dropWhile is_space s)))"

definition lower_char :: "char \<Rightarrow> char" where
  "lower_char c =
     (case map_of (zip ''ABCDEFGHIJKLMNOPQRSTUVWXYZ'' ''abcdefghijklmnopqrstuvwxyz'') c of
        None \<Rightarrow> c
      | Some l \<Rightarrow> l)"

definition toLowerCase :: "string \<Rightarrow> string" where
  "toLowerCase s = map lower_char s"

text \<open>
  A method call on a value: the method exists on strings only, so \<open>v.trim()\<close> on any
  other value calls \<open>undefined\<close> and throws (and on \<open>undefined\<close> or \<open>null\<close> the
  property read throws already).
\<close>

fun js_trim :: "jsval \<Rightarrow> js_error + jsval" where
  "js_trim (JStr s) = Inr (JStr (trim s))"
| "js_trim v = Inl (TypeError ''trim is not a function'')"

fun js_toLowerCase :: "jsval \<Rightarrow> js_error + jsval" where
  "js_toLowerCase (JStr s) = Inr (JStr (toLowerCase s))"
| "js_toLowerCase v = Inl (TypeError ''toLowerCase is not a function'')"

subsection \<open>JSON text\<close>

text \<open>
  A piece of text that goes through \<open>JSON.parse\<close> (a Redis list entry, the content of
  a broker message) is represented by what the parser makes of it: the value it denotes,
  or nothing when it is not JSON. \<open>JSON.stringify\<close> writes the text of a value; the
  code applies it to object literals only. A property whose value is \<open>undefined\<close> is
  kept in the value the text denotes, where \<open>JSON.stringify\<close> leaves it out: reading
  the property yields \<open>undefined\<close> in both.
\<close>

datatype json_text = Json jsval | Malformed string

definition JSON_stringify :: "jsval \<Rightarrow> json_text" where
  "JSON_stringify v = Json v"

fun JSON_parse :: "json_text \<Rightarrow> js_error + jsval" where
  "JSON_parse (Json v) = Inr v"
| "JSON_parse (Malformed s) = Inl (SyntaxError s)"

section \<open>RedisChatClient: chat history and room membership\<close>

text \<open>
  The Redis server as the commands used here see it: lists and hashes under string
  keys. A key that was never written holds the empty list (the empty hash). The
  commands are taken to reach the server and succeed; a lost connection to Redis is not
  part of this model.
\<close>

record redis_state =
  lists :: "string \<Rightarrow> json_text list"
  hashes :: "string \<Rightarrow> (string \<times> json_text) list"

definition lPush :: "string \<Rightarrow> json_text \<Rightarrow> redis_state \<Rightarrow> redis_state" where
  "lPush key v r = r\<lparr>lists := (lists r)(key := v # lists r key)\<rparr>"

text \<open>
  The index range of LTRIM and LRANGE: both ends inclusive, a negative index counting
  from the end of the list, out-of-range ends clamped.
\<close>

definition redis_range :: "'a list \<Rightarrow> int \<Rightarrow> int \<Rightarrow> 'a list" where
  "redis_range xs start stop =
     (let n = int (length xs);
          s = (if start < 0 then max 0 (n + start) else start);
          e = (if stop < 0 then n + stop else min stop (n - 1))
      in if e < s \<or> n \<le> s then [] else take (nat (e - s + 1)) (drop (nat s) xs))"

definition lTrim :: "string \<Rightarrow> int \<Rightarrow> int \<Rightarrow> redis_state \<Rightarrow> redis_state" where
  "lTrim key start stop r = r\<lparr>lists := (lists r)(key := redis_range (lists r key) start stop)\<rparr>"

definition lRange :: "string \<Rightarrow> int \<Rightarrow> int \<Rightarrow> redis_state \<Rightarrow> json_text list" where
  "lRange key start stop r = redis_range (lists r key) start stop"

definition hSet :: "string \<Rightarrow> string \<Rightarrow> json_text \<Rightarrow> redis_state \<Rightarrow> redis_state" where
  "hSet key field v r = r\<lparr>hashes := (hashes r)(key := AList.update field v (hashes r key))\<rparr>"

definition hDel :: "string \<Rightarrow> string \<Rightarrow> redis_state \<Rightarrow> redis_state" where
  "hDel key field r = r\<lparr>hashes := (hashes r)(key := AList.delete field (hashes r key))\<rparr>"

definition messages_key :: "jsval \<Rightarrow> string" where
  "messages_key roomCode = ''chat:room:'' @ to_string_js roomCode @ '':messages''"

definition users_key :: "jsval \<Rightarrow> string" where
  "users_key roomCode = ''chat:room:'' @ to_string_js roomCode @ '':users''"

definition storeChatMessage :: "jsval \<Rightarrow> jsval \<Rightarrow> redis_state \<Rightarrow> redis_state" where
  "storeChatMessage roomCode message r =
     (let key = messages_key roomCode;
          r1 = lPush key (JSON_stringify message) r
      in lTrim key 0 99 r1)"

text \<open>\<open>chatHistory.map(msg => JSON.parse(msg))\<close>: the first entry that does not parse throws.\<close>

fun parse_all :: "json_text list \<Rightarrow> js_error + jsval list" where
  "parse_all [] = Inr []"
| "parse_all (t # ts) =
     (case JSON_parse t of
        Inl e \<Rightarrow> Inl e
      | Inr v \<Rightarrow> (case parse_all ts of Inl e \<Rightarrow> Inl e | Inr vs \<Rightarrow> Inr (v # vs)))"

definition getChatHistory :: "jsval \<Rightarrow> redis_state \<Rightarrow> js_error + jsval list" where
  "getChatHistory roomCode r =
     (let key = messages_key roomCode;
          chatHistory = lRange key 0 (- 1) r
      in case parse_all chatHistory of Inl e \<Rightarrow> Inl e | Inr vs \<Rightarrow> Inr (rev vs))"

definition addUserToRoom :: "jsval \<Rightarrow> jsval \<Rightarrow> jsval \<Rightarrow> redis_state \<Rightarrow> redis_state" where
  "addUserToRoom roomCode userId userData r =
     hSet (users_key roomCode) (to_string_js userId) (JSON_stringify userData) r"

definition removeUserFromRoom :: "jsval \<Rightarrow> jsval \<Rightarrow> redis_state \<Rightarrow> redis_state" where
  "removeUserFromRoom roomCode userId r = hDel (users_key roomCode) (to_string_js userId) r"

text \<open>
  A run of \<open>storeChatMessage\<close> calls, each for a room of its own, in the order made.
\<close>

fun store_all :: "(jsval \<times> jsval) list \<Rightarrow> redis_state \<Rightarrow> redis_state" where
  "store_all [] r = r"
| "store_all ((roomCode, message) # ops) r = store_all ops (storeChatMessage roomCode message r)"

text \<open>The messages of a run that went to the list of a room, oldest first.\<close>

definition appended_to :: "jsval \<Rightarrow> (jsval \<times> jsval) list \<Rightarrow> jsval list" where
  "appended_to roomCode ops =
     map snd (filter (\<lambda>op. messages_key (fst op) = messages_key roomCode) ops)"

section \<open>ChatMessageBus: the broker bridge\<close>

text \<open>
  What the bus does to the world outside is kept as a log of effects, in the order the
  code issues them: the calls on the AMQP connection and channel (with the options the
  code passes) and the timers it sets.
\<close>

type_synonym options = "(string \<times> bool) list"

datatype effect =
    Connect
  | CreateChannel
  | AssertExchange string string options
  | AssertQueue string options
  | BindQueue string string string
  | Consume string options
  | OnConnection string
  | Publish string string json_text options
  | Ack nat
  | Nack nat bool bool
  | SetTimeout nat
  | ClearTimeout
  | Sleep nat

text \<open>A message the broker delivers: its delivery tag and its content.\<close>

record amqp_msg =
  tag :: nat
  content :: json_text

definition gameEvents :: string where "gameEvents = ''game.events''"
definition gameRequests :: string where "gameRequests = ''game.requests''"
definition gameResponses :: string where "gameResponses = ''game.responses''"
definition chatGameEvents :: string where "chatGameEvents = ''chat.game.events''"

subsection \<open>connectWithRetry\<close>

text \<open>
  The awaited calls of one connection attempt, in the order of the source. The world
  decides which of them throws: an attempt is given the position of its first failing
  call and the error thrown there, or nothing when every call succeeds. The calls up to
  the failing one are issued; the rest of the attempt is skipped.
\<close>

definition topology :: "effect list" where
  "topology =
     [Connect,
      CreateChannel,
      AssertExchange gameEvents ''topic'' [(''durable'', True)],
      AssertExchange gameRequests ''direct'' [(''durable'', True)],
      AssertExchange gameResponses ''direct'' [(''durable'', True)],
      AssertQueue chatGameEvents [(''durable'', True)],
      BindQueue chatGameEvents gameEvents ''game.event.*'',
      Consume chatGameEvents [(''noAck'', False)],
      OnConnection ''error'',
      OnConnection ''close'']"

text \<open>The calls that can throw are the first eight; registering the observers cannot.\<close>

definition awaited_calls :: nat where
  "awaited_calls = 8"

type_synonym attempt_outcome = "(nat \<times> js_error) option"

definition run_attempt :: "attempt_outcome \<Rightarrow> (js_error + unit) \<times> effect list" where
  "run_attempt outcome =
     (case outcome of
        None \<Rightarrow> (Inr (), topology)
      | Some (i, e) \<Rightarrow>
          if i < awaited_calls then (Inl e, take (Suc i) topology) else (Inr (), topology))"

text \<open>
  The \<open>for\<close> loop of \<open>connectWithRetry\<close>, from the attempt it is at, with the effects so
  far. A failed attempt that is the last one rethrows; any other sleeps and goes on.
  When the loop condition fails the function falls off its end and returns normally.
\<close>

function connect_loop ::
  "(nat \<Rightarrow> attempt_outcome) \<Rightarrow> nat \<Rightarrow> nat \<Rightarrow> nat \<Rightarrow> effect list \<Rightarrow> (js_error + unit) \<times> effect list"
where
  "connect_loop world maxRetries retryDelay attempt log =
     (if attempt \<le> maxRetries then
        (case run_attempt (world attempt) of
           (Inr u, ops) \<Rightarrow> (Inr (), log @ ops)
         | (Inl error, ops) \<Rightarrow>
             if attempt = maxRetries then (Inl error, log @ ops)
             else connect_loop world maxRetries retryDelay (Suc attempt)
                    (log @ ops @ [Sleep retryDelay]))
      else (Inr (), log))"
  by pat_completeness auto
termination
  by (relation "measure (\<lambda>(world, maxRetries, retryDelay, attempt, log). Suc maxRetries - attempt)") auto

declare connect_loop.simps [simp del]

definition connectWithRetry ::
  "(nat \<Rightarrow> attempt_outcome) \<Rightarrow> nat \<Rightarrow> nat \<Rightarrow> (js_error + unit) \<times> effect list" where
  "connectWithRetry world maxRetries retryDelay = connect_loop world maxRetries retryDelay 1 []"

text \<open>\<open>initialize\<close> calls it with the defaults: 5 attempts, 5000 ms apart.\<close>

definition initialize :: "(nat \<Rightarrow> attempt_outcome) \<Rightarrow> (js_error + unit) \<times> effect list" where
  "initialize world = connectWithRetry world 5 5000"

text \<open>
  For stating what a run of the loop did: whether the attempt numbered \<open>i\<close> throws,
  the effects of the failed attempts from \<open>a\<close> up to (not including) \<open>b\<close>, each
  followed by the sleep, and the number of connections opened.
\<close>

definition attempt_fails :: "(nat \<Rightarrow> attempt_outcome) \<Rightarrow> nat \<Rightarrow> bool" where
  "attempt_fails world i = isl (fst (run_attempt (world i)))"

definition failed_attempts :: "(nat \<Rightarrow> attempt_outcome) \<Rightarrow> nat \<Rightarrow> nat \<Rightarrow> nat \<Rightarrow> effect list" where
  "failed_attempts world retryDelay a b =
     concat (map (\<lambda>i. snd (run_attempt (world i)) @ [Sleep retryDelay]) [a..<b])"

definition connects :: "effect list \<Rightarrow> nat" where
  "connects log = length (filter (\<lambda>e. e = Connect) log)"

text \<open>A broker that refuses the first two connections, and one that refuses all.\<close>

definition up_at_third :: "nat \<Rightarrow> attempt_outcome" where
  "up_at_third i = (if i < 3 then Some (0, Error ''connect ECONNREFUSED'') else None)"

definition broker_down :: "nat \<Rightarrow> attempt_outcome" where
  "broker_down i = Some (0, Error ''connect ECONNREFUSED'')"

subsection \<open>askGameService\<close>

definition default_response :: jsval where
  "default_response = JObj [(''isGameActive'', JBool False), (''isCorrect'', JBool False)]"

definition timeout_ms :: nat where
  "timeout_ms = 1000"

text \<open>
  What one call meets at the broker: whether asserting the reply queue throws, whether
  publishing throws, and the deliveries to the consumer of the reply queue, each with
  the time in milliseconds after the timer was set at which the callback runs (a
  delivery of \<open>null\<close> is the broker cancelling the consumer).
\<close>

record rpc_world =
  assertQueue_error :: "js_error option"
  publish_error :: "js_error option"
  arrivals :: "(nat \<times> amqp_msg option) list"

text \<open>
  The promise the call returns and the timer beside it. A promise settles once:
  \<open>resolve\<close> on a settled promise changes nothing.
\<close>

record pending =
  settled :: "jsval option"
  timer_armed :: bool
  effects :: "effect list"

definition resolve :: "jsval \<Rightarrow> pending \<Rightarrow> pending" where
  "resolve v p = (if settled p = None then p\<lparr>settled := Some v\<rparr> else p)"

definition clearTimeout :: "pending \<Rightarrow> pending" where
  "clearTimeout p = p\<lparr>timer_armed := False, effects := effects p @ [ClearTimeout]\<rparr>"

text \<open>Acknowledging a delivery on the channel it came on is taken not to throw.\<close>

definition ack :: "amqp_msg \<Rightarrow> pending \<Rightarrow> pending" where
  "ack m p = p\<lparr>effects := effects p @ [Ack (tag m)]\<rparr>"

definition nack :: "amqp_msg \<Rightarrow> bool \<Rightarrow> bool \<Rightarrow> pending \<Rightarrow> pending" where
  "nack m allUpTo requeue p = p\<lparr>effects := effects p @ [Nack (tag m) allUpTo requeue]\<rparr>"

text \<open>The timer's callback: it runs if the timer was not cleared, and runs once.\<close>

definition fire_timer :: "pending \<Rightarrow> pending" where
  "fire_timer p =
     (if timer_armed p then resolve default_response (p\<lparr>timer_armed := False\<rparr>) else p)"

text \<open>
  The consumer callback of the reply queue. Anything thrown inside its \<open>try\<close> (the
  content is not JSON, the parsed reply is \<open>null\<close>) ends in the \<open>catch\<close>, which
  negatively acknowledges the message. The test on \<open>requestId\<close> has no \<open>else\<close>.
\<close>

fun on_reply :: "string \<Rightarrow> amqp_msg option \<Rightarrow> pending \<Rightarrow> pending" where
  "on_reply requestId None p = p"
| "on_reply requestId (Some msg) p =
     (case JSON_parse (content msg) of
        Inl error \<Rightarrow> nack msg False False p
      | Inr response \<Rightarrow>
          (case get_prop response ''requestId'' of
             Inl error \<Rightarrow> nack msg False False p
           | Inr rid \<Rightarrow>
               if strict_eq rid (JStr requestId) then
                 (let p1 = ack msg (clearTimeout p)
                  in case get_prop response ''data'' of
                       Inl error \<Rightarrow> nack msg False False p1
                     | Inr d \<Rightarrow> resolve d p1)
               else p))"

fun on_replies :: "string \<Rightarrow> amqp_msg option list \<Rightarrow> pending \<Rightarrow> pending" where
  "on_replies requestId [] p = p"
| "on_replies requestId (m # ms) p = on_replies requestId ms (on_reply requestId m p)"

definition before_timeout :: "(nat \<times> amqp_msg option) list \<Rightarrow> amqp_msg option list" where
  "before_timeout arr = map snd (filter (\<lambda>a. fst a < timeout_ms) arr)"

definition after_timeout :: "(nat \<times> amqp_msg option) list \<Rightarrow> amqp_msg option list" where
  "after_timeout arr = map snd (filter (\<lambda>a. \<not> fst a < timeout_ms) arr)"

definition request_id :: "nat \<Rightarrow> string \<Rightarrow> string" where
  "request_id now random = string_of_nat now @ ''-'' @ random"

definition reply_queue :: "string \<Rightarrow> string" where
  "reply_queue requestId = ''chat.response.'' @ requestId"

definition request_envelope :: "string \<Rightarrow> string \<Rightarrow> jsval \<Rightarrow> nat \<Rightarrow> jsval" where
  "request_envelope requestId action data now =
     JObj [(''id'', JStr requestId), (''action'', JStr action), (''data'', data),
           (''replyTo'', JStr (reply_queue requestId)), (''timestamp'', JNum (int now))]"

text \<open>
  The state of a call that got as far as returning its promise: the timer is set, the
  consumer registered; then the deliveries that come before the timer is due, the
  timer, and the deliveries that come after it.
\<close>

definition rpc_started :: "string \<Rightarrow> string \<Rightarrow> jsval \<Rightarrow> nat \<Rightarrow> pending" where
  "rpc_started requestId action data now =
     \<lparr>settled = None, timer_armed = True,
      effects =
        [AssertQueue (reply_queue requestId) [(''exclusive'', True), (''autoDelete'', True)],
         Publish gameRequests ''game.request''
           (JSON_stringify (request_envelope requestId action data now)) [(''persistent'', True)],
         SetTimeout timeout_ms,
         Consume (reply_queue requestId) [(''noAck'', False)]]\<rparr>"

definition rpc_at_timeout :: "rpc_world \<Rightarrow> string \<Rightarrow> string \<Rightarrow> jsval \<Rightarrow> nat \<Rightarrow> pending" where
  "rpc_at_timeout world requestId action data now =
     fire_timer (on_replies requestId (before_timeout (arrivals world))
                   (rpc_started requestId action data now))"

definition rpc_finally :: "rpc_world \<Rightarrow> string \<Rightarrow> string \<Rightarrow> jsval \<Rightarrow> nat \<Rightarrow> pending" where
  "rpc_finally world requestId action data now =
     on_replies requestId (after_timeout (arrivals world))
       (rpc_at_timeout world requestId action data now)"

text \<open>
  \<open>askGameService\<close>: the value the caller's \<open>await\<close> gets (nothing if the promise
  never settles) and the effects of the call. \<open>now\<close> is the reading of \<open>Date.now()\<close>
  and \<open>random\<close> the text of \<open>Math.random()\<close>.
\<close>

definition askGameService ::
  "rpc_world \<Rightarrow> nat \<Rightarrow> string \<Rightarrow> string \<Rightarrow> jsval \<Rightarrow> jsval option \<times> effect list" where
  "askGameService world now random action data =
     (let requestId = request_id now random;
          replyQueue = reply_queue requestId
      in case assertQueue_error world of
           Some error \<Rightarrow>
             (Some default_response,
              [AssertQueue replyQueue [(''exclusive'', True), (''autoDelete'', True)]])
         | None \<Rightarrow>
             (case publish_error world of
                Some error \<Rightarrow>
                  (Some default_response,
                   [AssertQueue replyQueue [(''exclusive'', True), (''autoDelete'', True)],
                    Publish gameRequests ''game.request''
                      (JSON_stringify (request_envelope requestId action data now))
                      [(''persistent'', True)]])
              | None \<Rightarrow>
                  (settled (rpc_at_timeout world requestId action data now),
                   effects (rpc_finally world requestId action data now))))"

text \<open>A delivery is a reply to the request when it parses and carries the request's id.\<close>

definition is_reply_to :: "string \<Rightarrow> amqp_msg option \<Rightarrow> bool" where
  "is_reply_to requestId m =
     (case m of
        None \<Rightarrow> False
      | Some msg \<Rightarrow>
          (case JSON_parse (content msg) of
             Inl error \<Rightarrow> False
           | Inr response \<Rightarrow>
               (case get_prop response ''requestId'' of
                  Inl error \<Rightarrow> False
                | Inr rid \<Rightarrow> strict_eq rid (JStr requestId))))"

text \<open>The payload a reply carries, as the callback reads it.\<close>

definition reply_data :: "amqp_msg option \<Rightarrow> jsval" where
  "reply_data m =
     (case m of
        None \<Rightarrow> JUndefined
      | Some msg \<Rightarrow>
          (case JSON_parse (content msg) of
             Inl error \<Rightarrow> JUndefined
           | Inr response \<Rightarrow>
               (case get_prop response ''data'' of Inl error \<Rightarrow> JUndefined | Inr d \<Rightarrow> d)))"

text \<open>
  A game service that is slow: the request with id \<open>5-0.25\<close> sees, 10 ms after it was
  sent, a reply to some other request, and its own reply only after 1500 ms.
\<close>

definition other_reply :: amqp_msg where
  "other_reply = \<lparr>tag = 7, content = Json (JObj [(''requestId'', JStr ''other''),
       (''data'', JObj [(''isGameActive'', JBool True), (''isCorrect'', JBool True)])])\<rparr>"

definition late_reply :: amqp_msg where
  "late_reply = \<lparr>tag = 8, content = Json (JObj [(''requestId'', JStr ''5-0.25''),
       (''data'', JObj [(''isGameActive'', JBool True), (''isCorrect'', JBool True)])])\<rparr>"

definition slow_service :: rpc_world where
  "slow_service = \<lparr>assertQueue_error = None, publish_error = None,
      arrivals = [(10, Some other_reply), (1500, Some late_reply)]\<rparr>"

definition closed_channel :: rpc_world where
  "closed_channel = \<lparr>assertQueue_error = Some (Error ''Channel closed''), publish_error = None,
      arrivals = []\<rparr>"

section \<open>The socket layer\<close>

text \<open>
  What goes out to the clients, in the order emitted: \<open>io.to(room).emit\<close> reaches every
  connection in the room, \<open>socket.emit\<close> the connection itself, and
  \<open>socket.to(room).emit\<close> every connection in the room but the sender.
\<close>

datatype emission =
    ToRoom jsval string jsval
  | ToSocket string string jsval
  | ToOthers string jsval string jsval

text \<open>
  The state the service works on: the Redis server, what was emitted, the effects on the
  broker, and whether Socket.IO has been set up (before \<open>setup\<close>, \<open>getIO\<close> throws).
\<close>

record world =
  redis :: redis_state
  emitted :: "emission list"
  bus :: "effect list"
  io_set_up :: bool

definition emit :: "emission \<Rightarrow> world \<Rightarrow> world" where
  "emit e w = w\<lparr>emitted := emitted w @ [e]\<rparr>"

subsection \<open>handleGameEvent\<close>

text \<open>
  One lifecycle event from the broker. Whatever throws inside (the content does not
  parse, the event is \<open>null\<close>, Socket.IO is not set up, \<open>data\<close> is missing where it is
  read) is caught and logged: nothing is emitted. The \<open>switch\<close> compares with \<open>===\<close>.
\<close>

definition handleGameEvent :: "nat \<Rightarrow> amqp_msg \<Rightarrow> world \<Rightarrow> world" where
  "handleGameEvent now msg w =
     (case JSON_parse (content msg) of
        Inl error \<Rightarrow> w
      | Inr event \<Rightarrow>
          (case (get_prop event ''type'', get_prop event ''roomCode'', get_prop event ''data'') of
             (Inr type, Inr roomCode, Inr data) \<Rightarrow>
               if \<not> io_set_up w then w
               else if strict_eq type (JStr ''game-started'') then
                 emit (ToRoom roomCode ''game-mode-changed''
                   (JObj [(''isGameStarted'', JBool True),
                          (''message'', JStr ''Game started! Your messages will be treated as guesses.'')])) w
               else if strict_eq type (JStr ''game-ended'') then
                 emit (ToRoom roomCode ''game-mode-changed''
                   (JObj [(''isGameStarted'', JBool False),
                          (''message'', JStr ''Game ended! Back to chat mode.'')])) w
               else if strict_eq type (JStr ''correct-guess'') then
                 (case (get_prop data ''message'', get_prop data ''userId'') of
                    (Inr message, Inr userId) \<Rightarrow>
                      if truthy message then
                        emit (ToRoom roomCode ''chat-message''
                          (JObj [(''id'', JStr (''points-'' @ string_of_nat now @ ''-'' @ to_string_js userId)),
                                 (''userId'', JStr ''system''),
                                 (''username'', JStr ''System''),
                                 (''message'', message),
                                 (''timestamp'', JNum (int now)),
                                 (''type'', JStr ''system'')])) w
                      else w
                  | _ \<Rightarrow> w)
               else if strict_eq type (JStr ''new-round'') then
                 (case get_prop data ''round'' of
                    Inl error \<Rightarrow> w
                  | Inr round \<Rightarrow>
                      emit (ToRoom roomCode ''new-round''
                        (JObj [(''round'', round),
                               (''message'', JStr ''New round started! Chat cleared.'')])) w)
               else if strict_eq type (JStr ''game-restarted'') then
                 emit (ToRoom roomCode ''game-restarted''
                   (JObj [(''message'', JStr ''Game restarted! Chat cleared.'')])) w
               else w
           | _ \<Rightarrow> w))"

text \<open>The consumer of the lifecycle queue: dispatch, then acknowledge.\<close>

definition on_game_event :: "nat \<Rightarrow> amqp_msg option \<Rightarrow> world \<Rightarrow> world" where
  "on_game_event now m w =
     (case m of
        None \<Rightarrow> w
      | Some msg \<Rightarrow> (let w1 = handleGameEvent now msg w in w1\<lparr>bus := bus w1 @ [Ack (tag msg)]\<rparr>))"

text \<open>A \<open>new-round\<close> event for room \<open>ABCD\<close> with \<open>data.round = 3\<close>.\<close>

definition new_round_3 :: amqp_msg where
  "new_round_3 = \<lparr>tag = 1, content = Json (JObj [(''type'', JStr ''new-round''),
      (''roomCode'', JStr ''ABCD''), (''data'', JObj [(''round'', JNum 3)])])\<rparr>"

subsection \<open>ChatSocketHandler\<close>

text \<open>
  A connection: its id, the three fields \<open>join-chat-room\<close> stores on it (\<open>undefined\<close>
  until then) and the rooms it has joined. Each handler is a function from the
  connection, the payload of the event and the state to the new connection and state;
  \<open>now\<close> is what \<open>Date.now()\<close> reads during the call (the readings of one call are
  taken to fall in the same millisecond).
\<close>

record socket =
  sid :: string
  sock_roomCode :: jsval
  sock_userId :: jsval
  sock_username :: jsval
  rooms :: "jsval list"

definition connected :: "string \<Rightarrow> socket" where
  "connected i = \<lparr>sid = i, sock_roomCode = JUndefined, sock_userId = JUndefined,
                  sock_username = JUndefined, rooms = []\<rparr>"

definition error_event :: "string \<Rightarrow> jsval" where
  "error_event text = JObj [(''message'', JStr text)]"

definition handleJoinChatRoom :: "nat \<Rightarrow> socket \<Rightarrow> jsval \<Rightarrow> world \<Rightarrow> socket \<times> world" where
  "handleJoinChatRoom now socket data w =
     (case (get_prop data ''roomCode'', get_prop data ''userId'', get_prop data ''username'') of
        (Inr roomCode, Inr userId, Inr username) \<Rightarrow>
          if \<not> truthy roomCode \<or> \<not> truthy userId then
            (socket, emit (ToSocket (sid socket) ''error'' (error_event ''Room code and user ID required'')) w)
          else
            (let socket1 = socket\<lparr>sock_roomCode := roomCode, sock_userId := userId,
                                  sock_username := username, rooms := roomCode # rooms socket\<rparr>;
                 w1 = w\<lparr>redis := addUserToRoom roomCode userId
                         (JObj [(''username'', username), (''socketId'', JStr (sid socket)),
                                (''joinedAt'', JNum (int now))]) (redis w)\<rparr>
             in case getChatHistory roomCode (redis w1) of
                  Inl error \<Rightarrow>
                    (socket1, emit (ToSocket (sid socket) ''error'' (error_event ''Failed to join chat room'')) w1)
                | Inr messages \<Rightarrow>
                    (socket1,
                     emit (ToOthers (sid socket) roomCode ''user-joined-chat''
                             (JObj [(''userId'', userId), (''username'', username)]))
                       (emit (ToSocket (sid socket) ''chat-history'' (JObj [(''messages'', JArr messages)])) w1)))
      | _ \<Rightarrow> (socket, emit (ToSocket (sid socket) ''error'' (error_event ''Failed to join chat room'')) w))"

text \<open>The UTF-8 bytes of the party popper that opens the celebration.\<close>

definition party_popper :: string where
  "party_popper = [CHR 0xF0, CHR 0x9F, CHR 0x8E, CHR 0x89]"

definition celebration :: "nat \<Rightarrow> jsval \<Rightarrow> jsval \<Rightarrow> string \<Rightarrow> jsval" where
  "celebration now userId username word =
     JObj [(''id'', JStr (''correct-'' @ string_of_nat now @ ''-'' @ to_string_js userId)),
           (''userId'', JStr ''system''),
           (''username'', JStr ''System''),
           (''message'', JStr (party_popper @ '' '' @ to_string_js username @ '' got it! The word was ''
                               @ [CHR 0x22] @ word @ [CHR 0x22] @ '' (+points incoming)'')),
           (''timestamp'', JNum (int now)),
           (''type'', JStr ''correct-guess'')]"

definition chat_line :: "nat \<Rightarrow> jsval \<Rightarrow> jsval \<Rightarrow> jsval \<Rightarrow> string \<Rightarrow> jsval" where
  "chat_line now userId username message type =
     JObj [(''id'', JStr (string_of_nat now @ ''-'' @ to_string_js userId)),
           (''userId'', userId),
           (''username'', username),
           (''message'', message),
           (''timestamp'', JNum (int now)),
           (''type'', JStr type)]"

text \<open>Store a message in the room's history, then send it to the whole room.\<close>

definition store_and_broadcast :: "jsval \<Rightarrow> jsval \<Rightarrow> world \<Rightarrow> world" where
  "store_and_broadcast roomCode m w =
     emit (ToRoom roomCode ''chat-message'' m) (w\<lparr>redis := storeChatMessage roomCode m (redis w)\<rparr>)"

definition check_guess_request :: "jsval \<Rightarrow> jsval \<Rightarrow> jsval \<Rightarrow> jsval" where
  "check_guess_request roomCode userId guess =
     JObj [(''roomCode'', roomCode), (''userId'', userId), (''guess'', guess)]"

text \<open>
  \<open>handleChatMessage\<close> of \<open>socket-handlers/ChatSocketHandler.js\<close>: the game service
  is asked whether the message is a guess, and the handler waits for the answer.
  Anything thrown (the message is not a string, the answer is \<open>undefined\<close>) ends the
  handler in its \<open>catch\<close>, with what was done until then.
\<close>

definition handleChatMessage ::
  "rpc_world \<Rightarrow> nat \<Rightarrow> string \<Rightarrow> socket \<Rightarrow> jsval \<Rightarrow> world \<Rightarrow> world" where
  "handleChatMessage rpc now random socket data w =
     (case get_prop data ''message'' of
        Inl error \<Rightarrow> w
      | Inr message \<Rightarrow>
          (let roomCode = sock_roomCode socket;
               userId = sock_userId socket;
               username = sock_username socket
           in if \<not> truthy roomCode \<or> \<not> truthy message then w
              else
                (case js_trim message of
                   Inl error \<Rightarrow> w
                 | Inr guess \<Rightarrow>
                     (case askGameService rpc now random ''check-guess''
                             (check_guess_request roomCode userId guess) of
                        (None, fx) \<Rightarrow> w\<lparr>bus := bus w @ fx\<rparr>
                      | (Some gameCheckResponse, fx) \<Rightarrow>
                          (let w1 = w\<lparr>bus := bus w @ fx\<rparr>
                           in case get_prop gameCheckResponse ''isCorrect'' of
                                Inl error \<Rightarrow> w1
                              | Inr isCorrect \<Rightarrow>
                                  if truthy isCorrect then
                                    store_and_broadcast roomCode
                                      (celebration now userId username (to_string_js guess)) w1
                                  else
                                    (case get_prop gameCheckResponse ''isGameActive'' of
                                       Inl error \<Rightarrow> w1
                                     | Inr isGameActive \<Rightarrow>
                                         store_and_broadcast roomCode
                                           (chat_line now userId username message
                                              (if truthy isGameActive then ''guess'' else ''message''))
                                           w1))))))"

text \<open>
  The other \<open>handleChatMessage\<close> in the repository reads the game state from Redis
  through the client object. The object is an instance of \<open>RedisChatClient\<close>; what a
  read of its property \<open>getRoomData\<close> yields is a method (taking the room code, giving
  the stored text or \<open>null\<close>) or \<open>undefined\<close>. Calling \<open>undefined\<close> throws.
\<close>

type_synonym room_reader = "jsval \<Rightarrow> redis_state \<Rightarrow> js_error + json_text option"

record redis_client =
  getRoomData :: "room_reader option"

text \<open>
  \<open>RedisChatClient\<close>, in both versions of the repository, defines \<open>connect\<close>,
  \<open>disconnect\<close>, \<open>storeChatMessage\<close>, \<open>getChatHistory\<close>, \<open>addUserToRoom\<close>,
  \<open>removeUserFromRoom\<close>, \<open>getRoomUsers\<close>, \<open>get\<close>, \<open>set\<close>, \<open>del\<close> and \<open>exists\<close>;
  it has no \<open>getRoomData\<close>.
\<close>

definition redisClient :: redis_client where
  "redisClient = \<lparr>getRoomData = None\<rparr>"

definition call_getRoomData :: "redis_client \<Rightarrow> jsval \<Rightarrow> redis_state \<Rightarrow> js_error + json_text option" where
  "call_getRoomData client roomCode r =
     (case getRoomData client of
        None \<Rightarrow> Inl (TypeError ''redisClient.getRoomData is not a function'')
      | Some f \<Rightarrow> f roomCode r)"

text \<open>
  The three variables the inner \<open>try\<close> assigns. An exception inside leaves them as they
  are at that point.
\<close>

record game_check =
  isGameActive :: jsval
  isCorrect :: bool
  currentWord :: jsval

definition no_game :: game_check where
  "no_game = \<lparr>isGameActive = JBool False, isCorrect = False, currentWord = JNull\<rparr>"

text \<open>\<open>a && b\<close>, with \<open>b\<close> evaluated only when \<open>a\<close> is truthy.\<close>

definition js_and :: "jsval \<Rightarrow> jsval \<Rightarrow> jsval" where
  "js_and a b = (if truthy a then b else a)"

definition check_game_state ::
  "redis_client \<Rightarrow> jsval \<Rightarrow> jsval \<Rightarrow> jsval \<Rightarrow> redis_state \<Rightarrow> game_check" where
  "check_game_state client roomCode userId message r =
     (case call_getRoomData client roomCode r of
        Inl error \<Rightarrow> no_game
      | Inr None \<Rightarrow> no_game
      | Inr (Some roomData) \<Rightarrow>
          (case JSON_parse roomData of
             Inl error \<Rightarrow> no_game
           | Inr room \<Rightarrow>
               (case (get_prop room ''gameStarted'', get_prop room ''gamePhase'',
                      get_prop room ''currentDrawer'', get_prop room ''currentWord'') of
                  (Inr gameStarted, Inr gamePhase, Inr drawer, Inr word) \<Rightarrow>
                    (let active = js_and gameStarted (JBool (strict_eq gamePhase (JStr ''drawing'')));
                         g = no_game\<lparr>isGameActive := active\<rparr>
                     in if truthy active \<and> \<not> strict_eq drawer userId \<and> truthy word then
                          (case js_toLowerCase message of
                             Inl error \<Rightarrow> g
                           | Inr lowered \<Rightarrow>
                               (case js_trim lowered of
                                  Inl error \<Rightarrow> g
                                | Inr guess \<Rightarrow>
                                    (case js_toLowerCase word of
                                       Inl error \<Rightarrow> g
                                     | Inr target \<Rightarrow>
                                         g\<lparr>isCorrect := strict_eq guess target, currentWord := word\<rparr>)))
                        else g)
                | _ \<Rightarrow> no_game)))"

definition handleChatMessage_direct ::
  "redis_client \<Rightarrow> rpc_world \<Rightarrow> nat \<Rightarrow> string \<Rightarrow> socket \<Rightarrow> jsval \<Rightarrow> world \<Rightarrow> world" where
  "handleChatMessage_direct client rpc now random socket data w =
     (case get_prop data ''message'' of
        Inl error \<Rightarrow> w
      | Inr message \<Rightarrow>
          (let roomCode = sock_roomCode socket;
               userId = sock_userId socket;
               username = sock_username socket
           in if \<not> truthy roomCode \<or> \<not> truthy message then w
              else
                (let g = check_game_state client roomCode userId message (redis w)
                 in if isCorrect g \<and> truthy (currentWord g) then
                      (let w1 = store_and_broadcast roomCode
                                  (celebration now userId username (to_string_js (currentWord g))) w
                       in case js_trim message of
                            Inl error \<Rightarrow> w1
                          | Inr guess \<Rightarrow>
                              w1\<lparr>bus := bus w1 @
                                snd (askGameService rpc now random ''check-guess''
                                       (check_guess_request roomCode userId guess))\<rparr>)
                    else
                      store_and_broadcast roomCode
                        (chat_line now userId username message
                           (if truthy (isGameActive g) then ''guess'' else ''message''))
                        w)))"

definition departure :: "socket \<Rightarrow> emission" where
  "departure socket =
     ToOthers (sid socket) (sock_roomCode socket) ''user-left-chat''
       (JObj [(''userId'', sock_userId socket), (''username'', sock_username socket)])"

definition handleLeaveChatRoom :: "socket \<Rightarrow> world \<Rightarrow> socket \<times> world" where
  "handleLeaveChatRoom socket w =
     (let roomCode = sock_roomCode socket;
          userId = sock_userId socket
      in if \<not> truthy roomCode then (socket, w)
         else (socket\<lparr>rooms := removeAll roomCode (rooms socket)\<rparr>,
               emit (departure socket) (w\<lparr>redis := removeUserFromRoom roomCode userId (redis w)\<rparr>)))"

definition handleDisconnect :: "socket \<Rightarrow> world \<Rightarrow> socket \<times> world" where
  "handleDisconnect socket w =
     (let roomCode = sock_roomCode socket;
          userId = sock_userId socket
      in if truthy roomCode \<and> truthy userId then
           (socket, emit (departure socket) (w\<lparr>redis := removeUserFromRoom roomCode userId (redis w)\<rparr>))
         else (socket, w))"

text \<open>
  The events of one connection, as \<open>setupSocketEvents\<close> wires them to the handlers,
  and a run of them from a state of the connection and the world.
\<close>

datatype client_event =
    JoinChatRoom nat jsval
  | ChatMessage rpc_world nat string jsval
  | LeaveChatRoom
  | Disconnect

fun dispatch :: "client_event \<Rightarrow> socket \<times> world \<Rightarrow> socket \<times> world" where
  "dispatch (JoinChatRoom now data) (socket, w) = handleJoinChatRoom now socket data w"
| "dispatch (ChatMessage rpc now random data) (socket, w) =
     (socket, handleChatMessage rpc now random socket data w)"
| "dispatch LeaveChatRoom (socket, w) = handleLeaveChatRoom socket w"
| "dispatch Disconnect (socket, w) = handleDisconnect socket w"

fun run :: "client_event list \<Rightarrow> socket \<times> world \<Rightarrow> socket \<times> world" where
  "run [] st = st"
| "run (e # es) st = run es (dispatch e st)"

definition is_departure :: "emission \<Rightarrow> bool" where
  "is_departure e = (case e of ToOthers i room ev payload \<Rightarrow> ev = ''user-left-chat'' | _ \<Rightarrow> False)"

definition is_error_event :: "emission \<Rightarrow> bool" where
  "is_error_event e = (case e of ToSocket i ev payload \<Rightarrow> ev = ''error'' | _ \<Rightarrow> False)"

definition empty_world :: world where
  "empty_world = \<lparr>redis = \<lparr>lists = \<lambda>k. [], hashes = \<lambda>k. []\<rparr>, emitted = [], bus = [], io_set_up = True\<rparr>"

text \<open>
  The service between \<open>messageBus.initialize()\<close> and \<open>socketSingleton.setup(server)\<close>:
  \<open>initializeServices\<close> runs them in this order, so the consumer of the lifecycle queue
  is registered while Socket.IO is not yet set up.
\<close>

definition before_setup :: world where
  "before_setup = empty_world\<lparr>io_set_up := False\<rparr>"

subsection \<open>Reading the emissions\<close>

text \<open>
  A broadcast is a correct-guess message when its payload has the type
  \<open>correct-guess\<close>; the departures of a state are its \<open>user-left-chat\<close> broadcasts.
\<close>

definition is_correct_guess :: "emission \<Rightarrow> bool" where
  "is_correct_guess e =
     (case e of
        ToRoom room ev payload \<Rightarrow> get_prop payload ''type'' = Inr (JStr ''correct-guess'')
      | _ \<Rightarrow> False)"

definition departures :: "world \<Rightarrow> nat" where
  "departures w = length (filter is_departure (emitted w))"

subsection \<open>A room and its players\<close>

text \<open>
  Room \<open>ABCD\<close>: the drawer is \<open>u1\<close>, the word is \<open>apple\<close>, the game is in its
  drawing phase. The player \<open>u2\<close> (Uma) has joined on connection \<open>s2\<close> and sends
  the guess \<open>"  ApPle "\<close>. A client object that had a \<open>getRoomData\<close> would read the
  room's record; the repository's \<open>redisClient\<close> has none.
\<close>

definition guesser :: socket where
  "guesser = \<lparr>sid = ''s2'', sock_roomCode = JStr ''ABCD'', sock_userId = JStr ''u2'',
              sock_username = JStr ''Uma'', rooms = [JStr ''ABCD'']\<rparr>"

definition guess_ApPle :: jsval where
  "guess_ApPle = JObj [(''message'', JStr ''  ApPle '')]"

definition room_ABCD :: jsval where
  "room_ABCD = JObj [(''gameStarted'', JBool True), (''gamePhase'', JStr ''drawing''),
                     (''currentDrawer'', JStr ''u1''), (''currentWord'', JStr ''apple'')]"

definition reading_client :: redis_client where
  "reading_client = \<lparr>getRoomData = Some (\<lambda>roomCode r. Inr (Some (Json room_ABCD)))\<rparr>"

text \<open>
  What the handlers validate. A join request has its fields when the payload can be
  destructured and both \<open>roomCode\<close> and \<open>userId\<close> are truthy; a chat message has a
  text when the payload can be destructured and \<open>message\<close> is truthy.
\<close>

definition join_fields_present :: "jsval \<Rightarrow> bool" where
  "join_fields_present data =
     (case (get_prop data ''roomCode'', get_prop data ''userId'') of
        (Inr roomCode, Inr userId) \<Rightarrow> truthy roomCode \<and> truthy userId
      | _ \<Rightarrow> False)"

definition message_present :: "jsval \<Rightarrow> bool" where
  "message_present data =
     (case get_prop data ''message'' of Inl error \<Rightarrow> False | Inr message \<Rightarrow> truthy message)"

text \<open>Join requests of player \<open>u1\<close>, with and without the room code, and an empty message.\<close>

definition join_u1 :: jsval where
  "join_u1 = JObj [(''roomCode'', JStr ''ABCD''), (''userId'', JStr ''u1''), (''username'', JStr ''Ann'')]"

definition join_without_room :: jsval where
  "join_without_room = JObj [(''userId'', JStr ''u1''), (''username'', JStr ''Ann'')]"

definition empty_message :: jsval where
  "empty_message = JObj [(''message'', JStr [])]"

section \<open>Chat history: the cap of 100 and the order\<close>

lemma redis_range_keep_100: "redis_range xs 0 99 = take 100 xs"
  by (cases "length xs \<le> 100") (auto simp: redis_range_def Let_def min_def)

lemma redis_range_all: "redis_range xs 0 (- 1) = xs"
  by (cases xs) (auto simp: redis_range_def Let_def)

lemma lists_storeChatMessage:
  "lists (storeChatMessage roomCode message r) k =
     (if k = messages_key roomCode then take 100 (Json message # lists r k) else lists r k)"
  by (simp add: storeChatMessage_def lPush_def lTrim_def Let_def JSON_stringify_def
      redis_range_keep_100)

lemma take_append_take: "take n (xs @ take n ys) = take n (xs @ ys)"
  by (simp add: min_def)

lemma lists_store_all:
  "lists (store_all ops r) (messages_key roomCode) =
     (if appended_to roomCode ops = [] then lists r (messages_key roomCode)
      else take 100 (rev (map Json (appended_to roomCode ops)) @ lists r (messages_key roomCode)))"
proof (induction ops arbitrary: r)
  case Nil
  show ?case by (simp add: appended_to_def)
next
  case (Cons op ops)
  obtain rc m where op: "op = (rc, m)" by (cases op)
  show ?case
  proof (cases "messages_key rc = messages_key roomCode")
    case True
    then show ?thesis
      using Cons.IH [of "storeChatMessage rc m r"]
      by (simp add: op appended_to_def lists_storeChatMessage
          take_append_take [of 100, simplified] del: take_Cons_numeral)
  next
    case False
    then show ?thesis
      using Cons.IH [of "storeChatMessage rc m r"]
      by (simp add: op appended_to_def lists_storeChatMessage)
  qed
qed

lemma parse_all_Json: "parse_all (map Json vs) = Inr vs"
  by (induction vs) simp_all

lemma getChatHistory_lists:
  "getChatHistory roomCode r = (case parse_all (lists r (messages_key roomCode)) of
      Inl e \<Rightarrow> Inl e | Inr vs \<Rightarrow> Inr (rev vs))"
  by (simp add: getChatHistory_def lRange_def redis_range_all)

text \<open>
  Claim C2. Whatever the store held before, once more than 100 messages have been
  appended to a room (calls for other rooms may come in between), \<open>getChatHistory\<close>
  returns exactly the last 100 of them, oldest first; and from the first append on, the
  room's list never holds more than 100 entries.
\<close>

theorem chat_history_last_100:
  assumes "100 < length (appended_to roomCode ops)"
  shows "getChatHistory roomCode (store_all ops r) =
           Inr (drop (length (appended_to roomCode ops) - 100) (appended_to roomCode ops))
         \<and> (\<forall>n. appended_to roomCode (take n ops) \<noteq> [] \<longrightarrow>
               length (lists (store_all (take n ops) r) (messages_key roomCode)) \<le> 100)"
proof
  let ?A = "appended_to roomCode ops"
  from assms have ne: "?A \<noteq> []" by auto
  have "lists (store_all ops r) (messages_key roomCode) = take 100 (rev (map Json ?A))"
    using assms ne by (simp add: lists_store_all)
  also have "\<dots> = rev (drop (length (map Json ?A) - 100) (map Json ?A))"
    by (rule take_rev)
  also have "\<dots> = rev (map Json (drop (length ?A - 100) ?A))"
    by (simp only: drop_map length_map)
  finally show "getChatHistory roomCode (store_all ops r) = Inr (drop (length ?A - 100) ?A)"
    by (simp add: getChatHistory_lists rev_map parse_all_Json)
next
  show "\<forall>n. appended_to roomCode (take n ops) \<noteq> [] \<longrightarrow>
          length (lists (store_all (take n ops) r) (messages_key roomCode)) \<le> 100"
  proof (intro allI impI)
    fix n
    assume "appended_to roomCode (take n ops) \<noteq> []"
    then have "lists (store_all (take n ops) r) (messages_key roomCode) =
        take 100 (rev (map Json (appended_to roomCode (take n ops))) @ lists r (messages_key roomCode))"
      by (simp only: lists_store_all if_False)
    then show "length (lists (store_all (take n ops) r) (messages_key roomCode)) \<le> 100"
      by (simp only: length_take min.cobounded2)
  qed
qed

theorem chat_history_last_100_witness:
  "100 < length (appended_to (JStr ''ABCD'') (map (\<lambda>i. (JStr ''ABCD'', JNum (int i))) [0..<101]))
   \<and> getChatHistory (JStr ''ABCD'')
        (store_all (map (\<lambda>i. (JStr ''ABCD'', JNum (int i))) [0..<101])
           \<lparr>lists = \<lambda>k. [], hashes = \<lambda>k. []\<rparr>)
      = Inr (map (\<lambda>i. JNum (int i)) [1..<101])
   \<and> appended_to (JStr ''ABCD'') (take 101 (map (\<lambda>i. (JStr ''ABCD'', JNum (int i))) [0..<101])) \<noteq> []
   \<and> length (lists (store_all (take 101 (map (\<lambda>i. (JStr ''ABCD'', JNum (int i))) [0..<101]))
                          \<lparr>lists = \<lambda>k. [], hashes = \<lambda>k. []\<rparr>)
                (messages_key (JStr ''ABCD''))) \<le> 100"
proof -
  let ?ops = "map (\<lambda>i. (JStr ''ABCD'', JNum (int i))) [0..<101]"
  let ?r = "\<lparr>lists = \<lambda>k. [], hashes = \<lambda>k. []\<rparr>"
  have app: "appended_to (JStr ''ABCD'') ?ops = map (\<lambda>i. JNum (int i)) [0..<101]"
    by (simp add: appended_to_def filter_map o_def)
  have h: "100 < length (appended_to (JStr ''ABCD'') ?ops)"
    by (simp add: app)
  have whole: "take 101 ?ops = ?ops"
    by simp
  have ne: "appended_to (JStr ''ABCD'') (take 101 ?ops) \<noteq> []"
    by (simp only: whole app) simp
  note c2 = chat_history_last_100 [OF h, of ?r]
  from c2 have hist: "getChatHistory (JStr ''ABCD'') (store_all ?ops ?r)
        = Inr (drop (length (appended_to (JStr ''ABCD'') ?ops) - 100) (appended_to (JStr ''ABCD'') ?ops))"
    by blast
  from c2 ne have cap: "length (lists (store_all (take 101 ?ops) ?r) (messages_key (JStr ''ABCD''))) \<le> 100"
    by blast
  have "getChatHistory (JStr ''ABCD'') (store_all ?ops ?r) = Inr (map (\<lambda>i. JNum (int i)) [1..<101])"
    by (simp only: hist app) (simp add: drop_map)
  with h ne cap show ?thesis
    by blast
qed

section \<open>askGameService: one outcome for every request\<close>

lemma get_prop_total: "get_prop v k = Inr x \<Longrightarrow> \<exists>y. get_prop v k' = Inr y"
  by (cases v) auto

lemma on_reply_other:
  "\<not> is_reply_to rid m \<Longrightarrow>
     settled (on_reply rid m p) = settled p \<and> timer_armed (on_reply rid m p) = timer_armed p"
  by (cases m) (auto simp: is_reply_to_def nack_def split: sum.splits)

lemma on_reply_match:
  assumes "is_reply_to rid m" "settled p = None"
  shows "settled (on_reply rid m p) = Some (reply_data m)"
proof -
  from assms(1) obtain msg response rqid where m: "m = Some msg"
    and parse: "JSON_parse (content msg) = Inr response"
    and rid: "get_prop response ''requestId'' = Inr rqid" "strict_eq rqid (JStr rid)"
    by (auto simp: is_reply_to_def split: option.splits sum.splits)
  from get_prop_total [OF rid(1)] obtain d where d: "get_prop response ''data'' = Inr d"
    by blast
  show ?thesis
    using assms(2) by (simp add: m parse rid d reply_data_def resolve_def ack_def clearTimeout_def)
qed

lemma on_reply_settled:
  "settled p = Some v \<Longrightarrow> settled (on_reply rid m p) = Some v"
  by (cases m) (auto simp: nack_def resolve_def ack_def clearTimeout_def Let_def split: sum.splits)

lemma on_replies_settled:
  "settled p = Some v \<Longrightarrow> settled (on_replies rid ms p) = Some v"
  by (induction ms arbitrary: p) (simp_all add: on_reply_settled)

lemma on_replies_find:
  "settled p = None \<Longrightarrow> timer_armed p \<Longrightarrow>
     (case find (is_reply_to rid) ms of
        None \<Rightarrow> settled (on_replies rid ms p) = None \<and> timer_armed (on_replies rid ms p)
      | Some m \<Rightarrow> settled (on_replies rid ms p) = Some (reply_data m))"
proof (induction ms arbitrary: p)
  case Nil
  then show ?case by simp
next
  case (Cons m ms)
  show ?case
  proof (cases "is_reply_to rid m")
    case True
    then show ?thesis
      using Cons.prems by (simp add: on_replies_settled on_reply_match)
  next
    case False
    then show ?thesis
      using Cons.prems Cons.IH [of "on_reply rid m p"]
      by (auto simp: on_reply_other split: option.splits)
  qed
qed

lemma fire_timer_settled:
  "settled (fire_timer p) =
     (if settled p = None \<and> timer_armed p then Some default_response else settled p)"
  by (simp add: fire_timer_def resolve_def)

lemma rpc_at_timeout_settled:
  "settled (rpc_at_timeout world rid action data now) =
     (case find (is_reply_to rid) (before_timeout (arrivals world)) of
        None \<Rightarrow> Some default_response
      | Some m \<Rightarrow> Some (reply_data m))"
  using on_replies_find [of "rpc_started rid action data now" rid "before_timeout (arrivals world)"]
  by (auto simp: rpc_at_timeout_def fire_timer_settled rpc_started_def split: option.splits)

lemma request_id_5: "request_id 5 ''0.25'' = ''5-0.25''"
  by (simp add: request_id_def string_of_nat.simps digit_char_def)

text \<open>
  Claim C3. When no reply carrying the request's id is delivered before the timer is due
  (1000 ms), the call returns \<open>{isGameActive: false, isCorrect: false}\<close>. Every call
  returns a value, and exactly one: the default when set-up fails; otherwise the payload
  of the first matching reply that came before the timer, or the default when there was
  none. A reply that comes after the promise has settled does not change its value.
\<close>

theorem askGameService_one_outcome:
  "((\<forall>m \<in> set (before_timeout (arrivals world)). \<not> is_reply_to (request_id now random) m) \<longrightarrow>
       fst (askGameService world now random action data) = Some default_response)
   \<and> fst (askGameService world now random action data) =
       (if assertQueue_error world = None \<and> publish_error world = None then
          (case find (is_reply_to (request_id now random)) (before_timeout (arrivals world)) of
             None \<Rightarrow> Some default_response
           | Some m \<Rightarrow> Some (reply_data m))
        else Some default_response)
   \<and> settled (rpc_finally world (request_id now random) action data now) =
       settled (rpc_at_timeout world (request_id now random) action data now)
   \<and> timeout_ms = 1000"
proof -
  let ?rid = "request_id now random"
  have exact: "fst (askGameService world now random action data) =
       (if assertQueue_error world = None \<and> publish_error world = None then
          (case find (is_reply_to ?rid) (before_timeout (arrivals world)) of
             None \<Rightarrow> Some default_response
           | Some m \<Rightarrow> Some (reply_data m))
        else Some default_response)"
    by (auto simp: askGameService_def Let_def rpc_at_timeout_settled split: option.splits)
  have silent: "fst (askGameService world now random action data) = Some default_response"
    if "\<forall>m \<in> set (before_timeout (arrivals world)). \<not> is_reply_to ?rid m"
  proof -
    from that have "find (is_reply_to ?rid) (before_timeout (arrivals world)) = None"
      by (simp add: find_None_iff)
    then show ?thesis by (simp add: exact)
  qed
  obtain v where "settled (rpc_at_timeout world ?rid action data now) = Some v"
    by (cases "find (is_reply_to ?rid) (before_timeout (arrivals world))")
      (auto simp: rpc_at_timeout_settled)
  then have late: "settled (rpc_finally world ?rid action data now) =
      settled (rpc_at_timeout world ?rid action data now)"
    by (simp add: rpc_finally_def on_replies_settled)
  show ?thesis
    using exact silent late by (simp add: timeout_ms_def)
qed

theorem askGameService_one_outcome_witness:
  "before_timeout (arrivals slow_service) = [Some other_reply]
   \<and> \<not> is_reply_to (request_id 5 ''0.25'') (Some other_reply)
   \<and> fst (askGameService slow_service 5 ''0.25'' ''check-guess'' JNull) = Some default_response"
proof -
  have b: "before_timeout (arrivals slow_service) = [Some other_reply]"
    by (simp add: before_timeout_def slow_service_def timeout_ms_def)
  have n: "\<not> is_reply_to (request_id 5 ''0.25'') (Some other_reply)"
    by (simp add: is_reply_to_def other_reply_def request_id_5)
  have h: "\<forall>m \<in> set (before_timeout (arrivals slow_service)).
             \<not> is_reply_to (request_id 5 ''0.25'') m"
    using n by (simp add: b)
  from askGameService_one_outcome [of slow_service 5 "''0.25''" "''check-guess''" JNull] h
  have "fst (askGameService slow_service 5 ''0.25'' ''check-guess'' JNull) = Some default_response"
    by blast
  with b n show ?thesis by simp
qed

section \<open>askGameService: a reply to another request\<close>

text \<open>
  A reply that parses and carries another id falls through the test on \<open>requestId\<close>:
  the callback leaves the promise, the timer and the channel as they were.
\<close>

lemma on_reply_other_id:
  assumes "JSON_parse (content msg) = Inr response"
    and "get_prop response ''requestId'' = Inr rid'"
    and "\<not> strict_eq rid' (JStr rid)"
  shows "on_reply rid (Some msg) p = p"
  using assms by simp

text \<open>
  Claim C6, at the slow game service: the reply to another request (delivery tag 7) is
  neither acknowledged nor negatively acknowledged, and the call returns the default. The
  only entries the deliveries add to the effects are those of the late matching reply.
\<close>

theorem other_reply_left_unacknowledged:
  "askGameService slow_service 5 ''0.25'' ''check-guess'' JNull =
     (Some default_response,
      [AssertQueue ''chat.response.5-0.25'' [(''exclusive'', True), (''autoDelete'', True)],
       Publish ''game.requests'' ''game.request''
         (Json (JObj [(''id'', JStr ''5-0.25''), (''action'', JStr ''check-guess''), (''data'', JNull),
                      (''replyTo'', JStr ''chat.response.5-0.25''), (''timestamp'', JNum 5)]))
         [(''persistent'', True)],
       SetTimeout 1000,
       Consume ''chat.response.5-0.25'' [(''noAck'', False)],
       ClearTimeout,
       Ack 8])"
  by (simp add: askGameService_def Let_def request_id_5 reply_queue_def slow_service_def
      rpc_at_timeout_def rpc_finally_def rpc_started_def before_timeout_def after_timeout_def
      timeout_ms_def other_reply_def late_reply_def fire_timer_def resolve_def ack_def
      clearTimeout_def nack_def gameRequests_def JSON_stringify_def request_envelope_def)

section \<open>askGameService: failures of the transport\<close>

text \<open>
  Claim C8. When asserting the reply queue or publishing the request throws, the call
  returns \<open>{isGameActive: false, isCorrect: false}\<close>; nothing is thrown to the caller.
\<close>

theorem askGameService_setup_failure:
  "assertQueue_error world \<noteq> None \<or> publish_error world \<noteq> None \<Longrightarrow>
     fst (askGameService world now random action data) = Some default_response"
  by (auto simp: askGameService_def Let_def split: option.splits)

theorem askGameService_setup_failure_witness:
  "assertQueue_error closed_channel \<noteq> None
   \<and> fst (askGameService closed_channel 5 ''0.25'' ''check-guess'' JNull) = Some default_response"
proof -
  have h: "assertQueue_error closed_channel \<noteq> None \<or> publish_error closed_channel \<noteq> None"
    by (simp add: closed_channel_def)
  from askGameService_setup_failure [OF h, of 5 "''0.25''" "''check-guess''" JNull]
  show ?thesis by (simp add: closed_channel_def)
qed

section \<open>connectWithRetry: bounded attempts\<close>

lemma run_attempt_success:
  "\<not> isl (fst (run_attempt outcome)) \<Longrightarrow> run_attempt outcome = (Inr (), topology)"
  by (auto simp: run_attempt_def split: option.splits if_splits)

lemma failed_attempts_step:
  "a < b \<Longrightarrow> failed_attempts world d a b =
     snd (run_attempt (world a)) @ [Sleep d] @ failed_attempts world d (Suc a) b"
  by (simp add: failed_attempts_def upt_conv_Cons)

lemma failed_attempts_none: "failed_attempts world d a a = []"
  by (simp add: failed_attempts_def)

lemma loop_all_fail:
  "a \<le> M \<Longrightarrow> (\<forall>i. a \<le> i \<and> i \<le> M \<longrightarrow> attempt_fails world i) \<Longrightarrow>
     connect_loop world M d a log =
       (fst (run_attempt (world M)), log @ failed_attempts world d a M @ snd (run_attempt (world M)))"
proof (induction world M d a log rule: connect_loop.induct)
  case (1 world M d a log)
  from "1.prems" have fa: "attempt_fails world a" by simp
  then obtain e ops where ra: "run_attempt (world a) = (Inl e, ops)"
    by (cases "run_attempt (world a)") (auto simp: attempt_fails_def isl_def)
  show ?case
  proof (cases "a = M")
    case True
    then show ?thesis
      using ra by (subst connect_loop.simps) (simp add: failed_attempts_none)
  next
    case False
    with "1.prems" have lt: "a < M" by simp
    have "connect_loop world M d a log = connect_loop world M d (Suc a) (log @ ops @ [Sleep d])"
      using lt False by (subst connect_loop.simps) (simp add: ra)
    also have "\<dots> = (fst (run_attempt (world M)),
        (log @ ops @ [Sleep d]) @ failed_attempts world d (Suc a) M @ snd (run_attempt (world M)))"
      using "1.IH" [OF _ ra [symmetric] refl False] lt "1.prems" by simp
    finally show ?thesis
      using lt by (simp add: failed_attempts_step ra)
  qed
qed

lemma loop_first_success:
  "a \<le> k \<Longrightarrow> k \<le> M \<Longrightarrow> (\<forall>i. a \<le> i \<and> i < k \<longrightarrow> attempt_fails world i) \<Longrightarrow>
   \<not> attempt_fails world k \<Longrightarrow>
     connect_loop world M d a log = (Inr (), log @ failed_attempts world d a k @ topology)"
proof (induction world M d a log rule: connect_loop.induct)
  case (1 world M d a log)
  show ?case
  proof (cases "a = k")
    case True
    with "1.prems" have "run_attempt (world a) = (Inr (), topology)"
      by (simp add: run_attempt_success attempt_fails_def)
    then show ?thesis
      using True "1.prems" by (subst connect_loop.simps) (simp add: failed_attempts_none)
  next
    case False
    with "1.prems" have lt: "a < k" by simp
    with "1.prems" have fa: "attempt_fails world a" by simp
    then obtain e ops where ra: "run_attempt (world a) = (Inl e, ops)"
      by (cases "run_attempt (world a)") (auto simp: attempt_fails_def isl_def)
    have ne: "a \<noteq> M" using lt "1.prems" by simp
    have "connect_loop world M d a log = connect_loop world M d (Suc a) (log @ ops @ [Sleep d])"
      using lt "1.prems" ne by (subst connect_loop.simps) (simp add: ra)
    also have "\<dots> = (Inr (), (log @ ops @ [Sleep d]) @ failed_attempts world d (Suc a) k @ topology)"
      using "1.IH" [OF _ ra [symmetric] refl ne] lt "1.prems" by simp
    finally show ?thesis
      using lt by (simp add: failed_attempts_step ra)
  qed
qed

lemma connects_append: "connects (xs @ ys) = connects xs + connects ys"
  by (simp add: connects_def)

lemma connects_attempt: "connects (snd (run_attempt outcome)) = 1"
proof -
  have "connects (take (Suc i) topology) = 1" for i
  proof -
    have "\<forall>e \<in> set (take i (tl topology)). e \<noteq> Connect"
      using set_take_subset [of i "tl topology"] by (auto simp: topology_def)
    then have "filter (\<lambda>e. e = Connect) (take i (tl topology)) = []"
      by (simp add: filter_empty_conv)
    then show ?thesis by (simp add: connects_def topology_def)
  qed
  moreover have "connects topology = 1"
    by (simp add: connects_def topology_def)
  ultimately show ?thesis
    by (auto simp: run_attempt_def split: option.splits)
qed

lemma connects_loop:
  "connects (snd (connect_loop world M d a log)) \<le> connects log + (Suc M - a)"
proof (induction world M d a log rule: connect_loop.induct)
  case (1 world M d a log)
  show ?case
  proof (cases "a \<le> M")
    case False
    then show ?thesis by (subst connect_loop.simps) simp
  next
    case le: True
    obtain res ops where ra: "run_attempt (world a) = (res, ops)"
      by (cases "run_attempt (world a)")
    have c: "connects ops = 1" using connects_attempt [of "world a"] by (simp add: ra)
    show ?thesis
    proof (cases res)
      case (Inr u)
      then show ?thesis
        using le c by (subst connect_loop.simps) (simp add: ra connects_append)
    next
      case (Inl e)
      show ?thesis
      proof (cases "a = M")
        case True
        then show ?thesis
          using le c Inl ra by (subst connect_loop.simps) (simp add: connects_append)
      next
        case False
        have "connects (snd (connect_loop world M d (Suc a) (log @ ops @ [Sleep d])))
              \<le> connects (log @ ops @ [Sleep d]) + (Suc M - Suc a)"
          using "1.IH" [OF le ra [unfolded Inl, symmetric] refl False] by simp
        moreover have "connects (log @ ops @ [Sleep d]) = connects log + 1"
          using c by (simp add: connects_append) (simp add: connects_def)
        moreover have "connect_loop world M d a log =
            connect_loop world M d (Suc a) (log @ ops @ [Sleep d])"
          using le False Inl by (subst connect_loop.simps) (simp add: ra)
        ultimately show ?thesis using le False by simp
      qed
    qed
  qed
qed

lemma up_at_third_fails:
  "attempt_fails up_at_third i = (i < 3)"
  by (simp add: attempt_fails_def up_at_third_def run_attempt_def awaited_calls_def)

lemma broker_down_fails: "attempt_fails broker_down i"
  by (simp add: attempt_fails_def broker_down_def run_attempt_def awaited_calls_def)

text \<open>
  Claim C10. \<open>connectWithRetry\<close> opens at most \<open>maxRetries\<close> connections. When
  every attempt fails (and there is at least one), it throws the error of the last
  attempt, having slept \<open>retryDelay\<close> after each failed attempt but the last. When the
  attempt \<open>k\<close> is the first to succeed, it returns after declaring the topology of
  that attempt, and makes no further attempt. The topology is one durable topic
  exchange, two durable direct exchanges and one durable queue bound to the topic
  exchange with \<open>game.event.*\<close>.
\<close>

theorem connectWithRetry_attempts:
  "connects (snd (connectWithRetry world maxRetries retryDelay)) \<le> maxRetries
   \<and> (0 < maxRetries \<and> (\<forall>i. 1 \<le> i \<and> i \<le> maxRetries \<longrightarrow> attempt_fails world i) \<longrightarrow>
        connectWithRetry world maxRetries retryDelay =
          (fst (run_attempt (world maxRetries)),
           failed_attempts world retryDelay 1 maxRetries @ snd (run_attempt (world maxRetries)))
        \<and> isl (fst (connectWithRetry world maxRetries retryDelay)))
   \<and> (1 \<le> k \<and> k \<le> maxRetries \<and> (\<forall>i. 1 \<le> i \<and> i < k \<longrightarrow> attempt_fails world i)
          \<and> \<not> attempt_fails world k \<longrightarrow>
        connectWithRetry world maxRetries retryDelay =
          (Inr (), failed_attempts world retryDelay 1 k @ topology))
   \<and> topology =
        [Connect, CreateChannel,
         AssertExchange ''game.events'' ''topic'' [(''durable'', True)],
         AssertExchange ''game.requests'' ''direct'' [(''durable'', True)],
         AssertExchange ''game.responses'' ''direct'' [(''durable'', True)],
         AssertQueue ''chat.game.events'' [(''durable'', True)],
         BindQueue ''chat.game.events'' ''game.events'' ''game.event.*'',
         Consume ''chat.game.events'' [(''noAck'', False)],
         OnConnection ''error'', OnConnection ''close'']"
proof (intro conjI impI)
  show "connects (snd (connectWithRetry world maxRetries retryDelay)) \<le> maxRetries"
    using connects_loop [of world maxRetries retryDelay 1 "[]"]
    by (simp add: connectWithRetry_def connects_def)
next
  assume h: "0 < maxRetries \<and> (\<forall>i. 1 \<le> i \<and> i \<le> maxRetries \<longrightarrow> attempt_fails world i)"
  then have eq: "connectWithRetry world maxRetries retryDelay =
          (fst (run_attempt (world maxRetries)),
           failed_attempts world retryDelay 1 maxRetries @ snd (run_attempt (world maxRetries)))"
    using loop_all_fail [of 1 maxRetries world retryDelay "[]"]
    by (simp add: connectWithRetry_def)
  then show "connectWithRetry world maxRetries retryDelay =
          (fst (run_attempt (world maxRetries)),
           failed_attempts world retryDelay 1 maxRetries @ snd (run_attempt (world maxRetries)))" .
  from h have "attempt_fails world maxRetries" by simp
  then show "isl (fst (connectWithRetry world maxRetries retryDelay))"
    by (simp add: eq attempt_fails_def)
next
  assume "1 \<le> k \<and> k \<le> maxRetries \<and> (\<forall>i. 1 \<le> i \<and> i < k \<longrightarrow> attempt_fails world i)
          \<and> \<not> attempt_fails world k"
  then show "connectWithRetry world maxRetries retryDelay =
          (Inr (), failed_attempts world retryDelay 1 k @ topology)"
    using loop_first_success [of 1 k maxRetries world retryDelay "[]"]
    by (simp add: connectWithRetry_def)
next
  show "topology =
        [Connect, CreateChannel,
         AssertExchange ''game.events'' ''topic'' [(''durable'', True)],
         AssertExchange ''game.requests'' ''direct'' [(''durable'', True)],
         AssertExchange ''game.responses'' ''direct'' [(''durable'', True)],
         AssertQueue ''chat.game.events'' [(''durable'', True)],
         BindQueue ''chat.game.events'' ''game.events'' ''game.event.*'',
         Consume ''chat.game.events'' [(''noAck'', False)],
         OnConnection ''error'', OnConnection ''close'']"
    by (simp add: topology_def gameEvents_def gameRequests_def gameResponses_def chatGameEvents_def)
qed

theorem connectWithRetry_attempts_witness:
  "attempt_fails up_at_third 1 \<and> attempt_fails up_at_third 2 \<and> \<not> attempt_fails up_at_third 3
   \<and> connectWithRetry up_at_third 5 5000 = (Inr (), [Connect, Sleep 5000, Connect, Sleep 5000] @ topology)
   \<and> attempt_fails broker_down 1 \<and> attempt_fails broker_down 2
   \<and> connectWithRetry broker_down 2 5000 =
       (Inl (Error ''connect ECONNREFUSED''), [Connect, Sleep 5000, Connect])"
proof -
  have f: "failed_attempts up_at_third 5000 1 3 = [Connect, Sleep 5000, Connect, Sleep 5000]"
    by (simp add: failed_attempts_def upt_conv_Cons up_at_third_def run_attempt_def
        awaited_calls_def topology_def)
  have h3: "1 \<le> (3::nat) \<and> (3::nat) \<le> 5 \<and> (\<forall>i. 1 \<le> i \<and> i < 3 \<longrightarrow> attempt_fails up_at_third i)
      \<and> \<not> attempt_fails up_at_third 3"
    by (simp add: up_at_third_fails)
  from connectWithRetry_attempts [of up_at_third 5 5000 3] h3
  have a: "connectWithRetry up_at_third 5 5000 = (Inr (), failed_attempts up_at_third 5000 1 3 @ topology)"
    by blast
  have g: "failed_attempts broker_down 5000 1 2 = [Connect, Sleep 5000]"
    by (simp add: failed_attempts_def upt_conv_Cons broker_down_def run_attempt_def
        awaited_calls_def topology_def)
  have r: "run_attempt (broker_down 2) = (Inl (Error ''connect ECONNREFUSED''), [Connect])"
    by (simp add: broker_down_def run_attempt_def awaited_calls_def topology_def)
  have h2: "0 < (2::nat) \<and> (\<forall>i. 1 \<le> i \<and> i \<le> 2 \<longrightarrow> attempt_fails broker_down i)"
    by (simp add: broker_down_fails)
  from connectWithRetry_attempts [of broker_down 2 5000 1] h2
  have b: "connectWithRetry broker_down 2 5000 =
      (fst (run_attempt (broker_down 2)), failed_attempts broker_down 5000 1 2 @ snd (run_attempt (broker_down 2)))"
    by blast
  show ?thesis
    by (simp only: a b f g r) (simp add: up_at_third_fails broker_down_fails)
qed

section \<open>handleGameEvent: a new round\<close>

text \<open>
  Claim C9, as the code has it. Once Socket.IO is set up, a \<open>new-round\<close> event whose
  \<open>data.round\<close> is 3 emits exactly one \<open>new-round\<close> event to the room of the event,
  carrying \<open>round: 3\<close> and the message \<open>New round started! Chat cleared.\<close>. Before
  that, \<open>getIO\<close> throws, the handler's \<open>catch\<close> takes it, and the event is dropped:
  nothing is emitted. Either way nothing else of the state changes, the chat history in
  Redis in particular.
\<close>

theorem new_round_dispatch:
  assumes "JSON_parse (content msg) = Inr event"
    and "get_prop event ''type'' = Inr (JStr ''new-round'')"
    and "get_prop event ''roomCode'' = Inr roomCode"
    and "get_prop event ''data'' = Inr data"
    and "get_prop data ''round'' = Inr (JNum 3)"
  shows "handleGameEvent now msg w =
           (if io_set_up w then
              w\<lparr>emitted := emitted w @
                 [ToRoom roomCode ''new-round''
                    (JObj [(''round'', JNum 3), (''message'', JStr ''New round started! Chat cleared.'')])]\<rparr>
            else w)
         \<and> redis (handleGameEvent now msg w) = redis w"
  using assms by (simp add: handleGameEvent_def emit_def)

theorem new_round_dispatch_witness:
  "JSON_parse (content new_round_3) =
     Inr (JObj [(''type'', JStr ''new-round''), (''roomCode'', JStr ''ABCD''),
                (''data'', JObj [(''round'', JNum 3)])])
   \<and> emitted (handleGameEvent 1700000000000 new_round_3 empty_world) =
       [ToRoom (JStr ''ABCD'') ''new-round''
          (JObj [(''round'', JNum 3), (''message'', JStr ''New round started! Chat cleared.'')])]
   \<and> redis (handleGameEvent 1700000000000 new_round_3 empty_world) = redis empty_world
   \<and> handleGameEvent 1700000000000 new_round_3 before_setup = before_setup"
proof -
  have p: "JSON_parse (content new_round_3) = Inr (JObj [(''type'', JStr ''new-round''),
      (''roomCode'', JStr ''ABCD''), (''data'', JObj [(''round'', JNum 3)])])"
    by (simp add: new_round_3_def)
  note c9 = new_round_dispatch [OF p, of "JStr ''ABCD''" "JObj [(''round'', JNum 3)]" 1700000000000]
  from c9 [of empty_world]
  have a: "emitted (handleGameEvent 1700000000000 new_round_3 empty_world) =
       [ToRoom (JStr ''ABCD'') ''new-round''
          (JObj [(''round'', JNum 3), (''message'', JStr ''New round started! Chat cleared.'')])]
      \<and> redis (handleGameEvent 1700000000000 new_round_3 empty_world) = redis empty_world"
    by (simp add: empty_world_def)
  from c9 [of before_setup]
  have b: "handleGameEvent 1700000000000 new_round_3 before_setup = before_setup"
    by (simp add: before_setup_def empty_world_def)
  from p a b show ?thesis by blast
qed

text \<open>
  Claim C9 as stated (the dispatch emits exactly one \<open>new-round\<close> event) fails before
  Socket.IO is set up: nothing is emitted, and the consumer acknowledges the message all
  the same, so the event is lost.
\<close>

theorem new_round_before_setup_counterexample:
  "emitted (handleGameEvent 1700000000000 new_round_3 before_setup) = []
   \<and> emitted (on_game_event 1700000000000 (Some new_round_3) before_setup) = []
   \<and> bus (on_game_event 1700000000000 (Some new_round_3) before_setup) = [Ack 1]"
  by (simp add: handleGameEvent_def on_game_event_def new_round_3_def before_setup_def
      empty_world_def)

section \<open>handleChatMessage with the direct read of the game state\<close>

lemma check_game_state_redisClient:
  "check_game_state redisClient roomCode userId message r = no_game"
  by (simp add: check_game_state_def call_getRoomData_def redisClient_def)

lemma is_correct_guess_chat_line:
  "type \<noteq> ''correct-guess'' \<Longrightarrow> \<not> is_correct_guess (ToRoom room ev (chat_line now u n m type))"
  by (simp add: is_correct_guess_def chat_line_def)

text \<open>
  Claim C5. With the repository's client object the look-up of the game state throws,
  the handler's inner \<open>catch\<close> takes it, and \<open>isGameActive\<close> and \<open>isCorrect\<close> stay
  false. So every message that passes the guard (the connection has joined a room, the
  message is not empty) is stored and broadcast as it came, with type \<open>message\<close>, and
  no call of the handler adds a correct-guess broadcast.
\<close>

theorem direct_handler_never_correct:
  "check_game_state redisClient (sock_roomCode socket) (sock_userId socket) message (redis w) = no_game
   \<and> (get_prop data ''message'' = Inr message \<and> truthy (sock_roomCode socket) \<and> truthy message \<longrightarrow>
        handleChatMessage_direct redisClient rpc now random socket data w =
          store_and_broadcast (sock_roomCode socket)
            (chat_line now (sock_userId socket) (sock_username socket) message ''message'') w)
   \<and> filter is_correct_guess (emitted (handleChatMessage_direct redisClient rpc now random socket data w))
       = filter is_correct_guess (emitted w)"
proof (intro conjI impI)
  show "check_game_state redisClient (sock_roomCode socket) (sock_userId socket) message (redis w) = no_game"
    by (rule check_game_state_redisClient)
next
  assume "get_prop data ''message'' = Inr message \<and> truthy (sock_roomCode socket) \<and> truthy message"
  then show "handleChatMessage_direct redisClient rpc now random socket data w =
          store_and_broadcast (sock_roomCode socket)
            (chat_line now (sock_userId socket) (sock_username socket) message ''message'') w"
    by (simp add: handleChatMessage_direct_def check_game_state_redisClient no_game_def)
next
  show "filter is_correct_guess (emitted (handleChatMessage_direct redisClient rpc now random socket data w))
       = filter is_correct_guess (emitted w)"
    by (auto simp: handleChatMessage_direct_def check_game_state_redisClient no_game_def Let_def
        store_and_broadcast_def emit_def is_correct_guess_chat_line split: sum.splits)
qed

theorem direct_handler_never_correct_witness:
  "get_prop guess_ApPle ''message'' = Inr (JStr ''  ApPle '')
   \<and> truthy (sock_roomCode guesser) \<and> truthy (JStr ''  ApPle '')
   \<and> emitted (handleChatMessage_direct redisClient slow_service 5 ''0.25'' guesser guess_ApPle empty_world)
      = [ToRoom (JStr ''ABCD'') ''chat-message''
           (JObj [(''id'', JStr ''5-u2''), (''userId'', JStr ''u2''), (''username'', JStr ''Uma''),
                  (''message'', JStr ''  ApPle ''), (''timestamp'', JNum 5), (''type'', JStr ''message'')])]
   \<and> lists (redis (handleChatMessage_direct redisClient slow_service 5 ''0.25'' guesser guess_ApPle empty_world))
        ''chat:room:ABCD:messages''
      = [Json (JObj [(''id'', JStr ''5-u2''), (''userId'', JStr ''u2''), (''username'', JStr ''Uma''),
                  (''message'', JStr ''  ApPle ''), (''timestamp'', JNum 5), (''type'', JStr ''message'')])]"
proof -
  have h: "get_prop guess_ApPle ''message'' = Inr (JStr ''  ApPle '')
      \<and> truthy (sock_roomCode guesser) \<and> truthy (JStr ''  ApPle '')"
    by (simp add: guess_ApPle_def guesser_def)
  from direct_handler_never_correct [of guesser "JStr ''  ApPle ''" empty_world guess_ApPle slow_service 5 "''0.25''"] h
  have "handleChatMessage_direct redisClient slow_service 5 ''0.25'' guesser guess_ApPle empty_world =
      store_and_broadcast (sock_roomCode guesser)
        (chat_line 5 (sock_userId guesser) (sock_username guesser) (JStr ''  ApPle '') ''message'') empty_world"
    by blast
  then show ?thesis
    using h by (simp add: store_and_broadcast_def emit_def chat_line_def guesser_def empty_world_def
        string_of_nat.simps digit_char_def lists_storeChatMessage messages_key_def)
qed

text \<open>
  The classification itself is as intended: with a client object whose \<open>getRoomData\<close>
  returns the room's record, a guess that matches the word (lower-cased, then trimmed)
  by a player who is not the drawer, during the drawing phase, yields exactly the
  celebration, stored and broadcast, and the guess itself is not sent.
\<close>

lemma correct_guess_with_room_reader:
  assumes reader: "getRoomData client = Some f"
    and stored: "f (sock_roomCode socket) (redis w) = Inr (Some roomData)"
    and parsed: "JSON_parse roomData = Inr room"
    and started: "get_prop room ''gameStarted'' = Inr gameStarted" "truthy gameStarted"
    and phase: "get_prop room ''gamePhase'' = Inr (JStr ''drawing'')"
    and drawer: "get_prop room ''currentDrawer'' = Inr drawer" "\<not> strict_eq drawer (sock_userId socket)"
    and word: "get_prop room ''currentWord'' = Inr (JStr word)" "word \<noteq> []"
    and joined: "truthy (sock_roomCode socket)"
    and message: "get_prop data ''message'' = Inr (JStr typed)"
    and guess: "trim (toLowerCase typed) = toLowerCase word"
  shows "emitted (handleChatMessage_direct client rpc now random socket data w) =
           emitted w @ [ToRoom (sock_roomCode socket) ''chat-message''
                          (celebration now (sock_userId socket) (sock_username socket) word)]
         \<and> redis (handleChatMessage_direct client rpc now random socket data w) =
             storeChatMessage (sock_roomCode socket)
               (celebration now (sock_userId socket) (sock_username socket) word) (redis w)"
proof -
  have nonempty: "typed \<noteq> []"
  proof
    assume "typed = []"
    with guess word(2) show False by (simp add: trim_def toLowerCase_def)
  qed
  have g: "check_game_state client (sock_roomCode socket) (sock_userId socket) (JStr typed) (redis w) =
      \<lparr>isGameActive = JBool True, isCorrect = True, currentWord = JStr word\<rparr>"
    using reader stored parsed started phase drawer word guess
    by (simp add: check_game_state_def call_getRoomData_def js_and_def no_game_def)
  show ?thesis
    using joined message nonempty word(2)
    by (simp add: handleChatMessage_direct_def g Let_def store_and_broadcast_def emit_def)
qed

lemma scenario_with_room_reader:
  "emitted (handleChatMessage_direct reading_client slow_service 5 ''0.25'' guesser guess_ApPle empty_world)
     = [ToRoom (JStr ''ABCD'') ''chat-message''
          (JObj [(''id'', JStr ''correct-5-u2''), (''userId'', JStr ''system''), (''username'', JStr ''System''),
                 (''message'', JStr (party_popper @ '' Uma got it! The word was '' @ [CHR 0x22] @ ''apple''
                                     @ [CHR 0x22] @ '' (+points incoming)'')),
                 (''timestamp'', JNum 5), (''type'', JStr ''correct-guess'')])]"
proof -
  have "emitted (handleChatMessage_direct reading_client slow_service 5 ''0.25'' guesser guess_ApPle empty_world)
     = emitted empty_world @ [ToRoom (sock_roomCode guesser) ''chat-message''
                          (celebration 5 (sock_userId guesser) (sock_username guesser) ''apple'')]"
    using correct_guess_with_room_reader [of reading_client "\<lambda>roomCode r. Inr (Some (Json room_ABCD))"
        guesser empty_world "Json room_ABCD" room_ABCD "JBool True" "JStr ''u1''" "''apple''"
        guess_ApPle "''  ApPle ''" slow_service 5 "''0.25''"]
    by (simp add: reading_client_def room_ABCD_def guesser_def guess_ApPle_def trim_def
        toLowerCase_def lower_char_def is_space_def)
  then show ?thesis
    by (simp add: empty_world_def guesser_def celebration_def string_of_nat.simps digit_char_def)
qed

text \<open>
  Claim C1, in room \<open>ABCD\<close>: with the repository's client object, the guess
  \<open>"  ApPle "\<close> of \<open>u2\<close> is broadcast to the room as it was typed, with type
  \<open>message\<close>, whatever the world holds; there is no celebration.
\<close>

theorem scenario_ApPle_broadcast_raw:
  "emitted (handleChatMessage_direct redisClient rpc now random guesser guess_ApPle w) =
     emitted w @
       [ToRoom (JStr ''ABCD'') ''chat-message''
          (JObj [(''id'', JStr (string_of_nat now @ ''-u2'')), (''userId'', JStr ''u2''),
                 (''username'', JStr ''Uma''), (''message'', JStr ''  ApPle ''),
                 (''timestamp'', JNum (int now)), (''type'', JStr ''message'')])]"
  by (simp add: handleChatMessage_direct_def check_game_state_redisClient no_game_def Let_def
      store_and_broadcast_def emit_def chat_line_def guesser_def guess_ApPle_def)

theorem scenario_ApPle_broadcast_raw_witness:
  "emitted (handleChatMessage_direct redisClient slow_service 5 ''0.25'' guesser guess_ApPle empty_world) =
       [ToRoom (JStr ''ABCD'') ''chat-message''
          (JObj [(''id'', JStr ''5-u2''), (''userId'', JStr ''u2''),
                 (''username'', JStr ''Uma''), (''message'', JStr ''  ApPle ''),
                 (''timestamp'', JNum 5), (''type'', JStr ''message'')])]"
  using scenario_ApPle_broadcast_raw [of slow_service 5 "''0.25''" empty_world]
  by (simp add: empty_world_def string_of_nat.simps digit_char_def)

section \<open>Leaving and disconnecting\<close>

lemma departures_emit:
  "departures (emit e w) = departures w + (if is_departure e then 1 else 0)"
  by (simp add: departures_def emit_def)

lemma departures_redis [simp]: "departures (w\<lparr>redis := r\<rparr>) = departures w"
  by (simp add: departures_def)

lemma is_departure_departure [simp]: "is_departure (departure socket)"
  by (simp add: is_departure_def departure_def)

lemma removeUserFromRoom_idem:
  "removeUserFromRoom roomCode userId (removeUserFromRoom roomCode userId r) =
     removeUserFromRoom roomCode userId r"
  by (simp add: removeUserFromRoom_def hDel_def delete_idem)

lemma handleDisconnect_joined:
  "truthy (sock_roomCode socket) \<Longrightarrow> truthy (sock_userId socket) \<Longrightarrow>
     handleDisconnect socket w =
       (socket, emit (departure socket)
          (w\<lparr>redis := removeUserFromRoom (sock_roomCode socket) (sock_userId socket) (redis w)\<rparr>))"
  by (simp add: handleDisconnect_def)

lemma handleLeaveChatRoom_joined:
  "truthy (sock_roomCode socket) \<Longrightarrow>
     handleLeaveChatRoom socket w =
       (socket\<lparr>rooms := removeAll (sock_roomCode socket) (rooms socket)\<rparr>,
        emit (departure socket)
          (w\<lparr>redis := removeUserFromRoom (sock_roomCode socket) (sock_userId socket) (redis w)\<rparr>))"
  by (simp add: handleLeaveChatRoom_def Let_def)

lemma handleJoinChatRoom_joined:
  assumes "get_prop data ''roomCode'' = Inr roomCode" "get_prop data ''userId'' = Inr userId"
    and "truthy roomCode" "truthy userId"
  shows "\<exists>socket' w'. handleJoinChatRoom now socket data w = (socket', w')
           \<and> sock_roomCode socket' = roomCode \<and> sock_userId socket' = userId
           \<and> departures w' = departures w"
proof -
  from get_prop_total [OF assms(1)] obtain username where "get_prop data ''username'' = Inr username"
    by blast
  then show ?thesis
    using assms
    by (auto simp: handleJoinChatRoom_def Let_def departures_emit is_departure_def split: sum.splits)
qed

text \<open>
  Claim C4, as the code has it. Neither \<open>handleLeaveChatRoom\<close> nor
  \<open>handleDisconnect\<close> clears the room and the user stored on the connection, and
  neither looks the membership up: after a join, every clean-up call broadcasts a
  departure. Join, disconnect, disconnect gives two departures, and so does join, leave,
  disconnect. The second call emits no error, and leaves Redis as the first left it.
\<close>

theorem cleanup_repeats_departure:
  assumes "get_prop data ''roomCode'' = Inr roomCode" "get_prop data ''userId'' = Inr userId"
    and "truthy roomCode" "truthy userId"
  shows "departures (snd (run [JoinChatRoom now data, Disconnect, Disconnect] (socket, w))) = departures w + 2
       \<and> departures (snd (run [JoinChatRoom now data, LeaveChatRoom, Disconnect] (socket, w))) = departures w + 2
       \<and> filter is_error_event (emitted (snd (run [JoinChatRoom now data, Disconnect, Disconnect] (socket, w))))
          = filter is_error_event (emitted (snd (run [JoinChatRoom now data, Disconnect] (socket, w))))
       \<and> redis (snd (run [JoinChatRoom now data, Disconnect, Disconnect] (socket, w)))
          = redis (snd (run [JoinChatRoom now data, Disconnect] (socket, w)))"
proof -
  from handleJoinChatRoom_joined [OF assms, of now socket w]
  obtain socket' w' where j: "handleJoinChatRoom now socket data w = (socket', w')"
    and f: "sock_roomCode socket' = roomCode" "sock_userId socket' = userId"
    and d: "departures w' = departures w"
    by blast
  have t: "truthy (sock_roomCode socket')" "truthy (sock_userId socket')"
    using f assms by simp_all
  let ?left = "\<lambda>v. emit (departure socket')
      (v\<lparr>redis := removeUserFromRoom (sock_roomCode socket') (sock_userId socket') (redis v)\<rparr>)"
  have jd: "run [JoinChatRoom now data, Disconnect] (socket, w) = (socket', ?left w')"
    using t by (simp add: j handleDisconnect_joined)
  have jdd: "run [JoinChatRoom now data, Disconnect, Disconnect] (socket, w) = (socket', ?left (?left w'))"
    using t by (simp add: j handleDisconnect_joined)
  have jld: "run [JoinChatRoom now data, LeaveChatRoom, Disconnect] (socket, w) =
      (socket'\<lparr>rooms := removeAll (sock_roomCode socket') (rooms socket')\<rparr>, ?left (?left w'))"
    using t by (simp add: j handleDisconnect_joined handleLeaveChatRoom_joined departure_def)
  have two: "departures (?left (?left w')) = departures w + 2"
    using d by (simp add: departures_emit)
  have errors: "filter is_error_event (emitted (?left (?left w'))) = filter is_error_event (emitted (?left w'))"
    by (simp add: emit_def is_error_event_def departure_def)
  have store: "redis (?left (?left w')) = redis (?left w')"
    by (simp add: emit_def removeUserFromRoom_idem)
  show ?thesis
    by (simp only: jd jdd jld snd_conv two errors store)
qed

theorem cleanup_repeats_departure_witness:
  "get_prop join_u1 ''roomCode'' = Inr (JStr ''ABCD'') \<and> get_prop join_u1 ''userId'' = Inr (JStr ''u1'')
   \<and> truthy (JStr ''ABCD'') \<and> truthy (JStr ''u1'')
   \<and> departures (snd (run [JoinChatRoom 5 join_u1, LeaveChatRoom, Disconnect] (connected ''s1'', empty_world))) = 2"
proof -
  have 1: "get_prop join_u1 ''roomCode'' = Inr (JStr ''ABCD'')" by (simp add: join_u1_def)
  have 2: "get_prop join_u1 ''userId'' = Inr (JStr ''u1'')" by (simp add: join_u1_def)
  have 3: "truthy (JStr ''ABCD'')" by simp
  have 4: "truthy (JStr ''u1'')" by simp
  from cleanup_repeats_departure [OF 1 2 3 4, of 5 "connected ''s1''" empty_world]
  show ?thesis
    using 1 2 by (simp add: departures_def empty_world_def)
qed

text \<open>
  Claim C4 as stated (exactly one departure for join, disconnect, disconnect) fails for
  player \<open>u1\<close> joining room \<open>ABCD\<close> on a fresh connection.
\<close>

theorem join_disconnect_twice_counterexample:
  "emitted (snd (run [JoinChatRoom 5 join_u1, Disconnect, Disconnect] (connected ''s1'', empty_world))) =
     [ToSocket ''s1'' ''chat-history'' (JObj [(''messages'', JArr [])]),
      ToOthers ''s1'' (JStr ''ABCD'') ''user-joined-chat'' (JObj [(''userId'', JStr ''u1''), (''username'', JStr ''Ann'')]),
      ToOthers ''s1'' (JStr ''ABCD'') ''user-left-chat'' (JObj [(''userId'', JStr ''u1''), (''username'', JStr ''Ann'')]),
      ToOthers ''s1'' (JStr ''ABCD'') ''user-left-chat'' (JObj [(''userId'', JStr ''u1''), (''username'', JStr ''Ann'')])]
   \<and> departures (snd (run [JoinChatRoom 5 join_u1, Disconnect, Disconnect] (connected ''s1'', empty_world))) \<noteq> 1"
  by (simp add: join_u1_def connected_def empty_world_def handleJoinChatRoom_def handleDisconnect_def
      Let_def emit_def departure_def departures_def is_departure_def getChatHistory_lists
      addUserToRoom_def hSet_def)

section \<open>Validation\<close>

lemma get_prop_defined: "v \<noteq> JUndefined \<Longrightarrow> v \<noteq> JNull \<Longrightarrow> \<exists>x. get_prop v k = Inr x"
  by (cases v) simp_all

text \<open>
  Claim C7, as the code has it. Every join request that lacks a room code or a user id
  gets an error event on its own connection, and nothing else changes: not the
  connection, not Redis, no broadcast. The text of the event is
  \<open>Room code and user ID required\<close> when the guard rejects the request, and
  \<open>Failed to join chat room\<close> when the request has no payload, so that destructuring
  it throws. A chat message without a text is dropped by either handler, silently: the
  state is unchanged, and no event goes out, no error event either.
\<close>

theorem validation_failures:
  "(\<not> join_fields_present data \<longrightarrow>
      handleJoinChatRoom now socket data w =
        (socket, w\<lparr>emitted := emitted w @
            [ToSocket (sid socket) ''error''
               (JObj [(''message'',
                       JStr (if data = JUndefined \<or> data = JNull then ''Failed to join chat room''
                             else ''Room code and user ID required''))])]\<rparr>))
   \<and> (\<not> message_present data' \<longrightarrow>
        handleChatMessage rpc now random socket data' w = w
        \<and> handleChatMessage_direct client rpc now random socket data' w = w)"
proof (intro conjI impI)
  assume h: "\<not> join_fields_present data"
  show "handleJoinChatRoom now socket data w =
        (socket, w\<lparr>emitted := emitted w @
            [ToSocket (sid socket) ''error''
               (JObj [(''message'',
                       JStr (if data = JUndefined \<or> data = JNull then ''Failed to join chat room''
                             else ''Room code and user ID required''))])]\<rparr>)"
  proof (cases "data = JUndefined \<or> data = JNull")
    case True
    then show ?thesis
      by (auto simp: handleJoinChatRoom_def emit_def error_event_def)
  next
    case False
    then obtain roomCode userId username where r: "get_prop data ''roomCode'' = Inr roomCode"
      "get_prop data ''userId'' = Inr userId" "get_prop data ''username'' = Inr username"
      using get_prop_defined [of data] by blast
    with h have "\<not> truthy roomCode \<or> \<not> truthy userId"
      by (simp add: join_fields_present_def)
    with r False show ?thesis
      by (auto simp: handleJoinChatRoom_def emit_def error_event_def)
  qed
next
  assume "\<not> message_present data'"
  then show "handleChatMessage rpc now random socket data' w = w"
    by (simp add: handleChatMessage_def message_present_def split: sum.splits)
next
  assume "\<not> message_present data'"
  then show "handleChatMessage_direct client rpc now random socket data' w = w"
    by (simp add: handleChatMessage_direct_def message_present_def split: sum.splits)
qed

theorem validation_failures_witness:
  "\<not> join_fields_present join_without_room
   \<and> handleJoinChatRoom 5 (connected ''s1'') join_without_room empty_world =
        (connected ''s1'', empty_world\<lparr>emitted :=
            [ToSocket ''s1'' ''error'' (JObj [(''message'', JStr ''Room code and user ID required'')])]\<rparr>)
   \<and> \<not> join_fields_present JUndefined
   \<and> handleJoinChatRoom 5 (connected ''s1'') JUndefined empty_world =
        (connected ''s1'', empty_world\<lparr>emitted :=
            [ToSocket ''s1'' ''error'' (JObj [(''message'', JStr ''Failed to join chat room'')])]\<rparr>)
   \<and> \<not> message_present empty_message
   \<and> handleChatMessage slow_service 5 ''0.25'' guesser empty_message empty_world = empty_world"
proof -
  have j: "\<not> join_fields_present join_without_room"
    by (simp add: join_fields_present_def join_without_room_def)
  have u: "\<not> join_fields_present JUndefined"
    by (simp add: join_fields_present_def)
  have m: "\<not> message_present empty_message"
    by (simp add: message_present_def empty_message_def)
  from validation_failures [where data = join_without_room and now = 5
      and socket = "connected ''s1''" and w = empty_world] j
  have a: "handleJoinChatRoom 5 (connected ''s1'') join_without_room empty_world =
        (connected ''s1'', empty_world\<lparr>emitted :=
            [ToSocket ''s1'' ''error'' (JObj [(''message'', JStr ''Room code and user ID required'')])]\<rparr>)"
    by (simp add: join_without_room_def empty_world_def connected_def)
  from validation_failures [where data = JUndefined and now = 5
      and socket = "connected ''s1''" and w = empty_world] u
  have b: "handleJoinChatRoom 5 (connected ''s1'') JUndefined empty_world =
        (connected ''s1'', empty_world\<lparr>emitted :=
            [ToSocket ''s1'' ''error'' (JObj [(''message'', JStr ''Failed to join chat room'')])]\<rparr>)"
    by (simp add: empty_world_def connected_def)
  from validation_failures [where data' = empty_message and rpc = slow_service
      and now = 5 and random = "''0.25''" and socket = guesser and w = empty_world] m
  have c: "handleChatMessage slow_service 5 ''0.25'' guesser empty_message empty_world = empty_world"
    by blast
  from j u m a b c show ?thesis by blast
qed

text \<open>
  Claim C7 as stated (every validation failure is answered with an error event) fails
  for an empty message: nothing is emitted.
\<close>

theorem empty_message_no_error_counterexample:
  "handleChatMessage slow_service 5 ''0.25'' guesser empty_message empty_world = empty_world
   \<and> filter is_error_event (emitted (handleChatMessage slow_service 5 ''0.25'' guesser empty_message empty_world)) = []"
  by (simp add: handleChatMessage_def empty_message_def guesser_def empty_world_def)

end
